theory Spec2Isabelle
  imports Main "HOL-Library.Product_Lexorder" "HOL-Library.List_Lexorder" "HOL-Library.Sublist"
    "HOL-Library.Multiset"
begin

section \<open>Strings, rows and tables\<close>

text \<open>
  A Python \<open>str\<close> is a sequence of Unicode code points, so it is modelled as a list of
  natural numbers; \<open>length\<close> then counts what Python's \<open>len\<close> and PostgreSQL's
  \<open>VARCHAR(n)\<close> count. ASCII literals of the source are written through \<open>ascii\<close>.
\<close>

type_synonym ustr = "nat list"

definition ascii :: "string \<Rightarrow> ustr" where
  "ascii s = map of_char s"

definition TAB :: ustr where
  "TAB = [9]"

definition NL :: ustr where
  "NL = [10]"

text \<open>The two part-of-speech names of the source, U+56FA U+6709 U+540D U+8A5E and
  U+666E U+901A U+540D U+8A5E.\<close>

definition koyuu_meishi :: ustr where
  "koyuu_meishi = [22266, 26377, 21517, 35422]"

definition futsuu_meishi :: ustr where
  "futsuu_meishi = [26222, 36890, 21517, 35422]"

text \<open>
  The three tables of \<open>initialize_database\<close> (db_utils.py). Columns declared without
  \<open>NOT NULL\<close> are options. \<open>w_xmin\<close> is PostgreSQL's system column \<open>xmin\<close>, the id of
  the transaction that wrote the row version; import_csv.py reads it. \<open>has_schema\<close> tells
  whether the tables exist: \<open>CREATE TABLE\<close> is transactional like the rows.
\<close>

record pos_row =
  p_code :: int
  p_name :: ustr

record attr_row =
  a_id :: int
  a_name :: ustr

record word_row =
  w_id :: int
  w_reading :: ustr
  w_word :: ustr
  w_pos_code :: "int option"
  w_attr_id :: "int option"
  w_collocation :: "ustr option"
  w_created_at :: nat
  w_updated_at :: nat
  w_xmin :: nat

record tables =
  has_schema :: bool
  pos_codes :: "pos_row list"
  attr_codes :: "attr_row list"
  words :: "word_row list"

text \<open>A row of the join query, with the three keys the cursor's \<open>DictRow\<close> has.\<close>

record word_pos =
  reading :: ustr
  word :: ustr
  pos_name :: ustr

section \<open>Exceptions and the error stream\<close>

text \<open>
  \<open>dberr\<close> stands for the subclasses of \<open>psycopg2.Error\<close>; \<open>exn\<close> for the Python
  exceptions the source raises or lets through, \<open>ValueError\<close> with its message.
  \<open>OtherException\<close> is an exception of any other class.
\<close>

datatype dberr =
  ValueTooLong | UniqueViolation | ForeignKeyViolation | UndefinedTable | DbFailure nat

datatype exn =
  ValueError ustr | DbError dberr | TypeError | RuntimeError ustr dberr | OtherException nat

record counts =
  inserted :: nat
  updated :: nat
  skipped :: nat
  errors :: nat

text \<open>
  One constructor per \<open>print(..., file=sys.stderr)\<close> of the source; the constructor keeps
  what the message interpolates (row number, row, exception, counters).
\<close>

datatype log_msg =
    LogShortRow nat "ustr list"
  | LogRowValueError nat ustr
  | LogRowDbError nat dberr
  | LogImportDone counts
  | LogSkipPos word_pos
  | LogGenerated nat
  | LogRetry int int dberr
  | LogInitDone

section \<open>The database connection as the source uses it\<close>

text \<open>
  The scripts talk to the database through a psycopg2 connection and cursor. Each SQL
  statement of the source is one operation on a connection state \<open>'s\<close>; an operation
  returns the statement's result or the exception that \<open>cur.execute\<close> raised (a
  \<open>psycopg2.Error\<close>, or another exception such as the \<open>ValueError\<close> psycopg2 raises
  for a parameter it cannot send), and the new state.
  \<open>init_statements\<close> is the sequence of six \<open>cur.execute\<close> calls of \<open>initialize_database\<close>.
  \<open>db_commit\<close> and \<open>db_rollback\<close> are \<open>conn.commit()\<close> and \<open>conn.rollback()\<close>, which
  may raise as well.
\<close>

record 's dbapi =
  select_pos_code :: "ustr \<Rightarrow> 's \<Rightarrow> (exn + int option) \<times> 's"
  select_attr_id :: "ustr \<Rightarrow> 's \<Rightarrow> (exn + int option) \<times> 's"
  insert_attr :: "ustr \<Rightarrow> 's \<Rightarrow> (exn + int) \<times> 's"
  upsert_word :: "ustr \<Rightarrow> ustr \<Rightarrow> int \<Rightarrow> int \<Rightarrow> ustr \<Rightarrow> 's \<Rightarrow> (exn + unit) \<times> 's"
  select_xmin_zero :: "ustr \<Rightarrow> ustr \<Rightarrow> int \<Rightarrow> 's \<Rightarrow> (exn + bool option) \<times> 's"
  select_words_with_pos :: "'s \<Rightarrow> (exn + word_pos list) \<times> 's"
  init_statements :: "'s \<Rightarrow> (exn + unit) \<times> 's"
  db_commit :: "'s \<Rightarrow> (exn + unit) \<times> 's"
  db_rollback :: "'s \<Rightarrow> (exn + unit) \<times> 's"

section \<open>generate\_mozc\_dict.py: the exporter\<close>

text \<open>The loop state of \<open>generate_tsv\<close>: the set \<open>generated\<close>, \<open>count\<close>, the lines printed to
  \<open>out_fp\<close> (one element per \<open>print\<close>) and the messages printed to the error stream.\<close>

record gen_state =
  generated :: "ustr set"
  gen_count :: nat
  out_fp :: "ustr list"
  gen_stderr :: "log_msg list"

text \<open>Lines 36 to 42: the line of a row, \<open>None\<close> for the \<open>else\<close> branch.\<close>

definition tsv_line :: "word_pos \<Rightarrow> ustr option" where
  "tsv_line row =
     (if pos_name row = koyuu_meishi then
        Some (reading row @ TAB @ ascii ''1920'' @ TAB @ ascii ''1920'' @ TAB @ ascii ''4001''
              @ TAB @ word row)
      else if pos_name row = futsuu_meishi then
        Some (reading row @ TAB @ ascii ''1851'' @ TAB @ ascii ''1851'' @ TAB @ ascii ''4000''
              @ TAB @ word row)
      else None)"

text \<open>Lines 33 to 47: the body of \<open>for row in cur\<close>.\<close>

definition tsv_step :: "word_pos \<Rightarrow> gen_state \<Rightarrow> gen_state" where
  "tsv_step row st =
     (case tsv_line row of
        None \<Rightarrow> st\<lparr>gen_stderr := gen_stderr st @ [LogSkipPos row]\<rparr>
      | Some line \<Rightarrow>
          if line \<notin> generated st then
            st\<lparr>out_fp := out_fp st @ [line],
               generated := insert line (generated st),
               gen_count := gen_count st + 1\<rparr>
          else st)"

fun tsv_loop :: "word_pos list \<Rightarrow> gen_state \<Rightarrow> gen_state" where
  "tsv_loop [] st = st"
| "tsv_loop (row # rows) st = tsv_loop rows (tsv_step row st)"

text \<open>
  \<open>generate_tsv(conn, out_fp)\<close>: the query, the loop, the final message. A failing
  \<open>cur.execute\<close> propagates its exception with nothing printed. The result is the exception or
  the final \<open>count\<close>, the connection state, the lines printed and the error stream.
\<close>

definition generate_tsv ::
  "'s dbapi \<Rightarrow> 's \<Rightarrow> (exn + nat) \<times> 's \<times> ustr list \<times> log_msg list" where
  "generate_tsv db conn =
     (case select_words_with_pos db conn of
        (Inl x, conn') \<Rightarrow> (Inl x, conn', [], [])
      | (Inr rows, conn') \<Rightarrow>
          let st = tsv_loop rows \<lparr>generated = {}, gen_count = 0, out_fp = [], gen_stderr = []\<rparr>
          in (Inr (gen_count st), conn', out_fp st,
              gen_stderr st @ [LogGenerated (gen_count st)]))"

text \<open>The text written to the file: \<open>print\<close> ends every line with a newline.\<close>

definition file_text :: "ustr list \<Rightarrow> ustr" where
  "file_text ls = concat (map (\<lambda>l. l @ NL) ls)"

section \<open>import\_csv.py: the importer\<close>

text \<open>Lines 25 to 30. The message is the f-string of line 30.\<close>

definition unknown_pos_msg :: "ustr \<Rightarrow> ustr" where
  "unknown_pos_msg name =
     [26410, 30693, 12398, 21697, 35422, 58, 32] @ name @
     [32, 40, 112, 111, 115, 95, 99, 111, 100, 101, 115, 32,
      12395, 30331, 37682, 12375, 12390, 12367, 12384, 12373, 12356, 41]"

definition get_or_create_pos_code :: "'s dbapi \<Rightarrow> ustr \<Rightarrow> 's \<Rightarrow> (exn + int) \<times> 's" where
  "get_or_create_pos_code db name conn =
     (case select_pos_code db name conn of
        (Inl x, c1) \<Rightarrow> (Inl x, c1)
      | (Inr (Some code), c1) \<Rightarrow> (Inr code, c1)
      | (Inr None, c1) \<Rightarrow> (Inl (ValueError (unknown_pos_msg name)), c1))"

text \<open>Lines 45 to 52: the handler \<open>except Error\<close> of \<open>get_or_create_attr_id\<close>, entered with
  the \<open>psycopg2.Error\<close> \<open>e\<close> that the insert or the commit raised; the bare \<open>raise\<close>
  re-raises \<open>e\<close>. An exception of the rollback or of the second query leaves the handler.\<close>

definition attr_recover :: "'s dbapi \<Rightarrow> ustr \<Rightarrow> dberr \<Rightarrow> 's \<Rightarrow> (exn + int) \<times> 's" where
  "attr_recover db name e conn =
     (case db_rollback db conn of
        (Inl x, c0) \<Rightarrow> (Inl x, c0)
      | (Inr u, c0) \<Rightarrow>
          (case select_attr_id db name c0 of
             (Inl x, c1) \<Rightarrow> (Inl x, c1)
           | (Inr (Some i), c1) \<Rightarrow> (Inr i, c1)
           | (Inr None, c1) \<Rightarrow> (Inl (DbError e), c1)))"

text \<open>Lines 33 to 52. Only a \<open>psycopg2.Error\<close> of the insert or the commit enters the
  handler; any other exception leaves the function.\<close>

definition get_or_create_attr_id :: "'s dbapi \<Rightarrow> ustr \<Rightarrow> 's \<Rightarrow> (exn + int) \<times> 's" where
  "get_or_create_attr_id db name conn =
     (case select_attr_id db name conn of
        (Inl x, c1) \<Rightarrow> (Inl x, c1)
      | (Inr (Some i), c1) \<Rightarrow> (Inr i, c1)
      | (Inr None, c1) \<Rightarrow>
          (case insert_attr db name c1 of
             (Inl (DbError e), c2) \<Rightarrow> attr_recover db name e c2
           | (Inl x, c2) \<Rightarrow> (Inl x, c2)
           | (Inr i, c2) \<Rightarrow>
               (case db_commit db c2 of
                  (Inl (DbError e), c3) \<Rightarrow> attr_recover db name e c3
                | (Inl x, c3) \<Rightarrow> (Inl x, c3)
                | (Inr u, c3) \<Rightarrow> (Inr i, c3))))"

text \<open>Lines 72 to 96, the body of the inner \<open>try\<close>: the result is the flag read at line 93,
  \<open>True\<close> for the branch \<open>inserted += 1\<close>. \<open>cur.fetchone()[0]\<close> on no row is a \<open>TypeError\<close>.\<close>

definition import_row_body ::
  "'s dbapi \<Rightarrow> ustr \<Rightarrow> ustr \<Rightarrow> ustr \<Rightarrow> ustr \<Rightarrow> ustr \<Rightarrow> 's \<Rightarrow> (exn + bool) \<times> 's" where
  "import_row_body db rd wd pn an co conn =
     (case get_or_create_pos_code db pn conn of
        (Inl x, c1) \<Rightarrow> (Inl x, c1)
      | (Inr pos_code, c1) \<Rightarrow>
     (case get_or_create_attr_id db an c1 of
        (Inl x, c2) \<Rightarrow> (Inl x, c2)
      | (Inr attr_id, c2) \<Rightarrow>
     (case upsert_word db rd wd pos_code attr_id co c2 of
        (Inl x, c3) \<Rightarrow> (Inl x, c3)
      | (Inr u, c3) \<Rightarrow>
     (case select_xmin_zero db rd wd pos_code c3 of
        (Inl x, c4) \<Rightarrow> (Inl x, c4)
      | (Inr None, c4) \<Rightarrow> (Inl TypeError, c4)
      | (Inr (Some b), c4) \<Rightarrow> (Inr b, c4)))))"

text \<open>The variables of \<open>import_csv\<close>: the connection, the four counters, the error stream.\<close>

record 's imp_state =
  imp_conn :: 's
  imp_counts :: counts
  imp_stderr :: "log_msg list"

definition too_many_values_msg :: ustr where
  "too_many_values_msg = ascii ''too many values to unpack (expected 5)''"

text \<open>
  Lines 64 to 104, one iteration of the loop over the rows the \<open>csv.reader\<close> yields. The
  unpacking of line 69 stands before the inner \<open>try\<close>, so its \<open>ValueError\<close> on a row of
  more than five fields leaves the function; so does any exception that is neither a
  \<open>ValueError\<close> nor a \<open>psycopg2.Error\<close>, and one that \<open>conn.rollback()\<close> raises in
  the handler, after the message and before \<open>errors += 1\<close>. The first component is the
  exception that leaves \<open>import_csv\<close>, if any.
\<close>

definition import_row ::
  "'s dbapi \<Rightarrow> nat \<Rightarrow> ustr list \<Rightarrow> 's imp_state \<Rightarrow> exn option \<times> 's imp_state" where
  "import_row db row_num row st =
     (if length row < 5 then
        (None, st\<lparr>imp_stderr := imp_stderr st @ [LogShortRow row_num row],
                  imp_counts := (imp_counts st)\<lparr>skipped := skipped (imp_counts st) + 1\<rparr>\<rparr>)
      else
        (case row of
           [rd, wd, pn, an, co] \<Rightarrow>
             (case import_row_body db rd wd pn an co (imp_conn st) of
                (Inr True, c) \<Rightarrow>
                  (None, st\<lparr>imp_conn := c,
                    imp_counts := (imp_counts st)\<lparr>inserted := inserted (imp_counts st) + 1\<rparr>\<rparr>)
              | (Inr False, c) \<Rightarrow>
                  (None, st\<lparr>imp_conn := c,
                    imp_counts := (imp_counts st)\<lparr>updated := updated (imp_counts st) + 1\<rparr>\<rparr>)
              | (Inl (ValueError ve), c) \<Rightarrow>
                  (None, st\<lparr>imp_conn := c,
                    imp_stderr := imp_stderr st @ [LogRowValueError row_num ve],
                    imp_counts := (imp_counts st)\<lparr>skipped := skipped (imp_counts st) + 1\<rparr>\<rparr>)
              | (Inl (DbError e), c) \<Rightarrow>
                  (case db_rollback db c of
                     (Inl x, c') \<Rightarrow>
                       (Some x, st\<lparr>imp_conn := c',
                         imp_stderr := imp_stderr st @ [LogRowDbError row_num e]\<rparr>)
                   | (Inr u, c') \<Rightarrow>
                       (None, st\<lparr>imp_conn := c',
                         imp_stderr := imp_stderr st @ [LogRowDbError row_num e],
                         imp_counts := (imp_counts st)\<lparr>errors := errors (imp_counts st) + 1\<rparr>\<rparr>))
              | (Inl x, c) \<Rightarrow> (Some x, st\<lparr>imp_conn := c\<rparr>))
         | _ \<Rightarrow> (Some (ValueError too_many_values_msg), st)))"

text \<open>\<open>for row_num, row in enumerate(reader, start=1)\<close>: the loop stops at the first
  exception that leaves an iteration.\<close>

fun import_loop ::
  "'s dbapi \<Rightarrow> nat \<Rightarrow> ustr list list \<Rightarrow> 's imp_state \<Rightarrow> exn option \<times> 's imp_state" where
  "import_loop db n [] st = (None, st)"
| "import_loop db n (row # rows) st =
     (case import_row db n row st of
        (Some x, st') \<Rightarrow> (Some x, st')
      | (None, st') \<Rightarrow> import_loop db (Suc n) rows st')"

definition zero_counts :: counts where
  "zero_counts = \<lparr>inserted = 0, updated = 0, skipped = 0, errors = 0\<rparr>"

text \<open>
  \<open>import_csv(conn, csv_path)\<close>, given the rows that \<open>csv.reader\<close> yields for the file:
  the loop, then \<open>conn.commit()\<close> and the final message. The result is the exception raised
  to the caller, if any, with the connection state, counters and error stream.
\<close>

definition import_csv :: "'s dbapi \<Rightarrow> 's \<Rightarrow> ustr list list \<Rightarrow> exn option \<times> 's imp_state" where
  "import_csv db conn rows =
     (case import_loop db 1 rows \<lparr>imp_conn = conn, imp_counts = zero_counts, imp_stderr = []\<rparr> of
        (Some x, st) \<Rightarrow> (Some x, st)
      | (None, st) \<Rightarrow>
          (case db_commit db (imp_conn st) of
             (Inl x, c) \<Rightarrow> (Some x, st\<lparr>imp_conn := c\<rparr>)
           | (Inr u, c) \<Rightarrow>
               (None, st\<lparr>imp_conn := c,
                        imp_stderr := imp_stderr st @ [LogImportDone (imp_counts st)]\<rparr>)))"

section \<open>db\_utils.py: schema initialisation and the import tool's main\<close>

definition init_error_prefix :: ustr where
  "init_error_prefix =
     [12487, 12540, 12479, 12505, 12540, 12473, 21021, 26399, 21270, 12456, 12521, 12540, 58, 32]"

text \<open>Lines 206 to 208: the handler \<open>except Error as e\<close> of \<open>initialize_database\<close>, the
  rollback and a \<open>RuntimeError\<close> that wraps the cause.\<close>

definition init_failed :: "'s dbapi \<Rightarrow> dberr \<Rightarrow> 's \<Rightarrow> (exn + log_msg list) \<times> 's" where
  "init_failed db e conn =
     (case db_rollback db conn of
        (Inl x, c) \<Rightarrow> (Inl x, c)
      | (Inr u, c) \<Rightarrow> (Inl (RuntimeError init_error_prefix e), c))"

text \<open>\<open>initialize_database(conn)\<close>, lines 131 to 210: the statements, the commit and the
  message; a \<open>psycopg2.Error\<close> enters the handler, any other exception leaves.\<close>

definition initialize_database :: "'s dbapi \<Rightarrow> 's \<Rightarrow> (exn + log_msg list) \<times> 's" where
  "initialize_database db conn =
     (case init_statements db conn of
        (Inl (DbError e), c1) \<Rightarrow> init_failed db e c1
      | (Inl x, c1) \<Rightarrow> (Inl x, c1)
      | (Inr u, c1) \<Rightarrow>
          (case db_commit db c1 of
             (Inl (DbError e), c2) \<Rightarrow> init_failed db e c2
           | (Inl x, c2) \<Rightarrow> (Inl x, c2)
           | (Inr u', c2) \<Rightarrow> (Inr [LogInitDone], c2)))"


section \<open>The PostgreSQL connection\<close>

text \<open>
  The state of one psycopg2 connection to a database that no other session writes:
  the committed tables, the tables as the open transaction sees them, the three
  \<open>SERIAL\<close> sequences (a rollback does not rewind them), and the number
  of transactions ended so far. The transaction id of the open transaction is
  \<open>3 + txn\<close>: PostgreSQL hands out normal ids from 3 upwards, 0 is the invalid id and never
  the \<open>xmin\<close> of a row. \<open>CURRENT_TIMESTAMP\<close> is the start time of the transaction; times are
  abstract ticks, one per transaction.
\<close>

record pg_conn =
  committed :: tables
  working :: tables
  pos_seq :: int
  attr_seq :: int
  word_seq :: int
  txn :: nat

definition current_xid :: "pg_conn \<Rightarrow> nat" where
  "current_xid c = 3 + txn c"

definition current_timestamp :: "pg_conn \<Rightarrow> nat" where
  "current_timestamp c = txn c"

text \<open>
  \<open>cur.execute(query, params)\<close> on a table of the schema: psycopg2 refuses a string
  parameter with a NUL character, with a \<open>ValueError\<close>, before anything is sent; the
  server refuses a table that does not exist; otherwise the statement runs.
  The scripts roll back after every \<open>psycopg2.Error\<close> before they send the next
  statement, so the state in which the server refuses every statement of a failed
  transaction is not entered.
\<close>

definition nul_msg :: ustr where
  "nul_msg = ascii ''A string literal cannot contain NUL (0x00) characters.''"

definition pg_execute ::
  "ustr list \<Rightarrow> (pg_conn \<Rightarrow> (exn + 'a) \<times> pg_conn) \<Rightarrow> pg_conn \<Rightarrow> (exn + 'a) \<times> pg_conn" where
  "pg_execute params stmt c =
     (if 0 \<in> set (concat params) then (Inl (ValueError nul_msg), c)
      else if \<not> has_schema (working c) then (Inl (DbError UndefinedTable), c)
      else stmt c)"

text \<open>
  A value stored into a \<open>VARCHAR(n)\<close> column: an over-long value whose excess characters are
  all spaces is truncated to \<open>n\<close> characters, any other over-long value is an error.
  A comparison \<open>name = %s\<close> in a \<open>WHERE\<close> clause does not truncate.
\<close>

definition varchar :: "nat \<Rightarrow> ustr \<Rightarrow> ustr option" where
  "varchar n s =
     (if length s \<le> n then Some s
      else if list_all (\<lambda>ch. ch = 32) (drop n s) then Some (take n s)
      else None)"

text \<open>\<open>SELECT code FROM pos_codes WHERE name = %s\<close> and \<open>fetchone()\<close>.\<close>

definition pg_select_pos_code :: "ustr \<Rightarrow> pg_conn \<Rightarrow> (exn + int option) \<times> pg_conn" where
  "pg_select_pos_code name =
     pg_execute [name]
       (\<lambda>c. (Inr (map_option p_code (find (\<lambda>p. p_name p = name) (pos_codes (working c)))), c))"

text \<open>\<open>SELECT id FROM attr_codes WHERE name = %s\<close> and \<open>fetchone()\<close>.\<close>

definition pg_select_attr_id :: "ustr \<Rightarrow> pg_conn \<Rightarrow> (exn + int option) \<times> pg_conn" where
  "pg_select_attr_id name =
     pg_execute [name]
       (\<lambda>c. (Inr (map_option a_id (find (\<lambda>a. a_name a = name) (attr_codes (working c)))), c))"

text \<open>
  \<open>INSERT INTO attr_codes (name) VALUES (%s) RETURNING id\<close> on \<open>id SERIAL PRIMARY KEY\<close>,
  \<open>name VARCHAR(100) UNIQUE\<close>: a value that does not fit is an error; a name already
  present, or a sequence value already used as an id, is a unique violation (the sequence
  value is consumed all the same); otherwise the row is added with the next sequence value.
\<close>

definition pg_insert_attr :: "ustr \<Rightarrow> pg_conn \<Rightarrow> (exn + int) \<times> pg_conn" where
  "pg_insert_attr name =
     pg_execute [name]
       (\<lambda>c. case varchar 100 name of
               None \<Rightarrow> (Inl (DbError ValueTooLong), c)
             | Some v \<Rightarrow>
                 if v \<in> a_name ` set (attr_codes (working c)) \<or>
                    attr_seq c \<in> a_id ` set (attr_codes (working c)) then
                   (Inl (DbError UniqueViolation), c\<lparr>attr_seq := attr_seq c + 1\<rparr>)
                 else
                   (Inr (attr_seq c),
                    c\<lparr>working := (working c)\<lparr>attr_codes :=
                         attr_codes (working c) @ [\<lparr>a_id = attr_seq c, a_name = v\<rparr>]\<rparr>,
                      attr_seq := attr_seq c + 1\<rparr>))"

text \<open>The conflict target \<open>(reading, word, pos_code)\<close> of the upsert.\<close>

definition same_key :: "ustr \<Rightarrow> ustr \<Rightarrow> int \<Rightarrow> word_row \<Rightarrow> bool" where
  "same_key rd wd pc w \<longleftrightarrow> w_reading w = rd \<and> w_word w = wd \<and> w_pos_code w = Some pc"

text \<open>The row version that \<open>DO UPDATE SET collocation, attr_id, updated_at\<close> writes in the
  open transaction.\<close>

definition updated_row :: "pg_conn \<Rightarrow> int \<Rightarrow> ustr \<Rightarrow> word_row \<Rightarrow> word_row" where
  "updated_row c ai co w =
     w\<lparr>w_collocation := Some co, w_attr_id := Some ai,
       w_updated_at := current_timestamp c, w_xmin := current_xid c\<rparr>"

text \<open>The row that \<open>INSERT INTO words\<close> adds, with the defaults of \<open>id\<close>, \<open>created_at\<close> and
  \<open>updated_at\<close>.\<close>

definition new_row :: "pg_conn \<Rightarrow> ustr \<Rightarrow> ustr \<Rightarrow> int \<Rightarrow> int \<Rightarrow> ustr \<Rightarrow> word_row" where
  "new_row c rd wd pc ai co =
     \<lparr>w_id = word_seq c, w_reading = rd, w_word = wd, w_pos_code = Some pc,
      w_attr_id = Some ai, w_collocation = Some co,
      w_created_at = current_timestamp c, w_updated_at = current_timestamp c,
      w_xmin = current_xid c\<rparr>"

text \<open>The two foreign keys of \<open>words\<close>, checked when the statement ends.\<close>

definition references_ok :: "int \<Rightarrow> int \<Rightarrow> pg_conn \<Rightarrow> bool" where
  "references_ok pc ai c \<longleftrightarrow>
     pc \<in> p_code ` set (pos_codes (working c)) \<and> ai \<in> a_id ` set (attr_codes (working c))"

text \<open>
  Lines 75 to 86, \<open>INSERT INTO words ... ON CONFLICT (reading, word, pos_code) DO UPDATE
  SET collocation, attr_id, updated_at\<close> on \<open>reading VARCHAR(255)\<close>, \<open>word VARCHAR(255)\<close>
  and the two foreign keys: a value that does not fit is an error; a row with the key
  of the stored values is rewritten in place (\<open>UNIQUE\<close> allows one such row at most);
  otherwise a row is added, unless its sequence value is already an id. The sequence
  value of the proposed row is consumed in all these cases. A \<open>pos_code\<close> or \<open>attr_id\<close>
  that the referenced table does not have is a foreign-key violation.
\<close>

definition pg_upsert_word ::
  "ustr \<Rightarrow> ustr \<Rightarrow> int \<Rightarrow> int \<Rightarrow> ustr \<Rightarrow> pg_conn \<Rightarrow> (exn + unit) \<times> pg_conn" where
  "pg_upsert_word rd wd pc ai co =
     pg_execute [rd, wd, co]
       (\<lambda>c. case (varchar 255 rd, varchar 255 wd) of
               (Some r, Some w) \<Rightarrow>
                 if list_ex (same_key r w pc) (words (working c)) then
                   if references_ok pc ai c then
                     (Inr (),
                      c\<lparr>working := (working c)\<lparr>words :=
                           map (\<lambda>x. if same_key r w pc x then updated_row c ai co x else x)
                               (words (working c))\<rparr>,
                        word_seq := word_seq c + 1\<rparr>)
                   else (Inl (DbError ForeignKeyViolation), c\<lparr>word_seq := word_seq c + 1\<rparr>)
                 else if word_seq c \<in> w_id ` set (words (working c)) then
                   (Inl (DbError UniqueViolation), c\<lparr>word_seq := word_seq c + 1\<rparr>)
                 else if references_ok pc ai c then
                   (Inr (),
                    c\<lparr>working := (working c)\<lparr>words :=
                         words (working c) @ [new_row c r w pc ai co]\<rparr>,
                      word_seq := word_seq c + 1\<rparr>)
                 else (Inl (DbError ForeignKeyViolation), c\<lparr>word_seq := word_seq c + 1\<rparr>)
             | _ \<Rightarrow> (Inl (DbError ValueTooLong), c))"

text \<open>Lines 89 to 92, \<open>SELECT xmin = 0 AS inserted FROM words WHERE reading=%s AND word=%s AND
  pos_code=%s\<close> and \<open>fetchone()\<close>.\<close>

definition pg_select_xmin_zero ::
  "ustr \<Rightarrow> ustr \<Rightarrow> int \<Rightarrow> pg_conn \<Rightarrow> (exn + bool option) \<times> pg_conn" where
  "pg_select_xmin_zero rd wd pc =
     pg_execute [rd, wd]
       (\<lambda>c. (Inr (map_option (\<lambda>w. w_xmin w = 0) (find (same_key rd wd pc) (words (working c)))),
              c))"

text \<open>
  \<open>SELECT w.reading, w.word, p.name AS pos_name FROM words w JOIN pos_codes p ON p.code =
  w.pos_code ORDER BY w.reading, w.word\<close>. The order of strings is the collation of the
  database, given as a key \<open>coll\<close> into a linear order. The order of rows that agree on both
  sort columns is not fixed by the query: it is the order in which the executor happens
  to deliver the rows of the join to the sort, \<open>arrange\<close>, which may be any rearrangement
  (a function that does not return a rearrangement of its argument is not used).
\<close>

definition join_words_pos :: "tables \<Rightarrow> word_pos list" where
  "join_words_pos t =
     concat (map (\<lambda>w. map (\<lambda>p. \<lparr>reading = w_reading w, word = w_word w, pos_name = p_name p\<rparr>)
                           (filter (\<lambda>p. w_pos_code w = Some (p_code p)) (pos_codes t)))
                 (words t))"

definition sort_columns :: "(ustr \<Rightarrow> 'k::linorder) \<Rightarrow> word_pos \<Rightarrow> 'k \<times> 'k" where
  "sort_columns coll r = (coll (reading r), coll (word r))"

definition delivered :: "('a list \<Rightarrow> 'a list) \<Rightarrow> 'a list \<Rightarrow> 'a list" where
  "delivered arrange rows = (if mset (arrange rows) = mset rows then arrange rows else rows)"

definition words_with_pos ::
  "(ustr \<Rightarrow> 'k::linorder) \<Rightarrow> (word_pos list \<Rightarrow> word_pos list) \<Rightarrow> tables \<Rightarrow> word_pos list" where
  "words_with_pos coll arrange t =
     sort_key (sort_columns coll) (delivered arrange (join_words_pos t))"

definition pg_select_words_with_pos ::
  "(ustr \<Rightarrow> 'k::linorder) \<Rightarrow> (word_pos list \<Rightarrow> word_pos list) \<Rightarrow> pg_conn
     \<Rightarrow> (exn + word_pos list) \<times> pg_conn" where
  "pg_select_words_with_pos coll arrange =
     pg_execute [] (\<lambda>c. (Inr (words_with_pos coll arrange (working c)), c))"

text \<open>
  The statements of \<open>initialize_database\<close>. The three \<open>CREATE TABLE IF NOT EXISTS\<close> create
  the empty tables, with their sequences at 1, where there are none, and leave existing
  tables as they are; so do the trigger statements.
\<close>

definition create_schema :: "pg_conn \<Rightarrow> pg_conn" where
  "create_schema c =
     (if has_schema (working c) then c
      else c\<lparr>working := \<lparr>has_schema = True, pos_codes = [], attr_codes = [], words = []\<rparr>,
             pos_seq := 1, attr_seq := 1, word_seq := 1\<rparr>)"

text \<open>
  \<open>INSERT INTO pos_codes (name) VALUES (...), (...) ON CONFLICT (name) DO NOTHING\<close>, one
  proposed row: the sequence value is consumed; a name that is there already is left
  alone; a sequence value already used as a code is a unique violation.
\<close>

definition seed_pos :: "ustr \<Rightarrow> pg_conn \<Rightarrow> (exn + unit) \<times> pg_conn" where
  "seed_pos name c =
     (if name \<in> p_name ` set (pos_codes (working c)) then
        (Inr (), c\<lparr>pos_seq := pos_seq c + 1\<rparr>)
      else if pos_seq c \<in> p_code ` set (pos_codes (working c)) then
        (Inl (DbError UniqueViolation), c\<lparr>pos_seq := pos_seq c + 1\<rparr>)
      else
        (Inr (),
         c\<lparr>working := (working c)\<lparr>pos_codes :=
              pos_codes (working c) @ [\<lparr>p_code = pos_seq c, p_name = name\<rparr>]\<rparr>,
           pos_seq := pos_seq c + 1\<rparr>))"

definition pg_init_statements :: "pg_conn \<Rightarrow> (exn + unit) \<times> pg_conn" where
  "pg_init_statements c =
     (case seed_pos koyuu_meishi (create_schema c) of
        (Inl x, c1) \<Rightarrow> (Inl x, c1)
      | (Inr u, c1) \<Rightarrow> seed_pos futsuu_meishi c1)"

definition pg_commit :: "pg_conn \<Rightarrow> (exn + unit) \<times> pg_conn" where
  "pg_commit c = (Inr (), c\<lparr>committed := working c, txn := Suc (txn c)\<rparr>)"

definition pg_rollback :: "pg_conn \<Rightarrow> (exn + unit) \<times> pg_conn" where
  "pg_rollback c = (Inr (), c\<lparr>working := committed c, txn := Suc (txn c)\<rparr>)"

definition postgres ::
  "(ustr \<Rightarrow> 'k::linorder) \<Rightarrow> (word_pos list \<Rightarrow> word_pos list) \<Rightarrow> pg_conn dbapi" where
  "postgres coll arrange =
     \<lparr>select_pos_code = pg_select_pos_code,
      select_attr_id = pg_select_attr_id,
      insert_attr = pg_insert_attr,
      upsert_word = pg_upsert_word,
      select_xmin_zero = pg_select_xmin_zero,
      select_words_with_pos = pg_select_words_with_pos coll arrange,
      init_statements = pg_init_statements,
      db_commit = pg_commit,
      db_rollback = pg_rollback\<rparr>"

text \<open>A database in which nothing has been created yet, and a fresh connection to it.\<close>

definition empty_tables :: tables where
  "empty_tables = \<lparr>has_schema = False, pos_codes = [], attr_codes = [], words = []\<rparr>"

definition fresh_conn :: pg_conn where
  "fresh_conn = \<lparr>committed = empty_tables, working = empty_tables,
                 pos_seq = 1, attr_seq = 1, word_seq = 1, txn = 0\<rparr>"

text \<open>Closing the connection discards the open transaction; the next run connects anew.\<close>

definition reconnect :: "pg_conn \<Rightarrow> pg_conn" where
  "reconnect c = snd (pg_rollback c)"

section \<open>db\_utils.py: the retry wrapper\<close>

text \<open>
  \<open>execute_with_retry(conn, query, params=None, *, max_retries=3)\<close>, lines 216 to 235.
  \<open>cursor\<close> is \<open>conn.cursor(...)\<close> of line 223, outside the \<open>try\<close>; \<open>exec\<close> is
  \<open>cur.execute(query, params)\<close> followed by \<open>cur.fetchall()\<close>; \<open>rollback\<close> is
  \<open>conn.rollback()\<close>. Each of them returns or raises. The handler of line 229 catches a
  \<open>psycopg2.Error\<close> only. \<open>retry_from\<close> is the loop from the iteration \<open>attempt\<close> on;
  the source has no sleep between iterations. When the range is empty the function falls
  off its end and returns \<open>None\<close>.
\<close>

function retry_from ::
  "('s \<Rightarrow> (exn + unit) \<times> 's) \<Rightarrow> ('s \<Rightarrow> (exn + 'r) \<times> 's) \<Rightarrow> ('s \<Rightarrow> (exn + unit) \<times> 's)
     \<Rightarrow> int \<Rightarrow> int \<Rightarrow> 's \<Rightarrow> log_msg list \<Rightarrow> (exn + 'r option) \<times> 's \<times> log_msg list" where
  "retry_from cursor exec rollback max_retries attempt conn log =
     (if attempt \<le> max_retries then
        (case cursor conn of
           (Inl x, c0) \<Rightarrow> (Inl x, c0, log)
         | (Inr u, c0) \<Rightarrow>
             (case exec c0 of
                (Inr rows, c1) \<Rightarrow> (Inr (Some rows), c1, log)
              | (Inl (DbError e), c1) \<Rightarrow>
                  (case rollback c1 of
                     (Inl x, c2) \<Rightarrow> (Inl x, c2, log)
                   | (Inr u', c2) \<Rightarrow>
                       if attempt < max_retries then
                         retry_from cursor exec rollback max_retries (attempt + 1) c2
                           (log @ [LogRetry attempt max_retries e])
                       else (Inl (DbError e), c2, log))
              | (Inl x, c1) \<Rightarrow> (Inl x, c1, log)))
      else (Inr None, conn, log))"
  by pat_completeness auto
termination
  by (relation "measure (\<lambda>(cursor, exec, rollback, max_retries, attempt, conn, log).
        nat (max_retries + 1 - attempt))") auto

text \<open>The keyword argument \<open>max_retries\<close> is \<open>None\<close> when the caller leaves it out.\<close>

definition default_max_retries :: int where
  "default_max_retries = 3"

definition execute_with_retry ::
  "('s \<Rightarrow> (exn + unit) \<times> 's) \<Rightarrow> ('s \<Rightarrow> (exn + 'r) \<times> 's) \<Rightarrow> ('s \<Rightarrow> (exn + unit) \<times> 's)
     \<Rightarrow> 's \<Rightarrow> int option \<Rightarrow> (exn + 'r option) \<times> 's \<times> log_msg list" where
  "execute_with_retry cursor exec rollback conn max_retries =
     retry_from cursor exec rollback
       (case max_retries of None \<Rightarrow> default_max_retries | Some m \<Rightarrow> m) 1 conn []"

section \<open>supabase\_utils.py: the wrapper around a direct connection\<close>




section \<open>db\_utils.py: the connection configuration\<close>

text \<open>
  The \<open>argparse\<close> namespace of \<open>add_common_args\<close>: every option is absent (\<open>None\<close>) unless
  given; \<open>--port\<close> has \<open>type=int\<close>. The environment is \<open>os.getenv\<close>, a partial map from
  variable names. \<open>py_int\<close> stands for Python's \<open>int\<close> on a string, \<open>None\<close> where it raises
  \<open>ValueError\<close>; \<open>connect\<close> stands for \<open>psycopg2.connect\<close>.
\<close>

record cli_args =
  arg_host :: "ustr option"
  arg_port :: "int option"
  arg_database :: "ustr option"
  arg_user :: "ustr option"
  arg_password :: "ustr option"

record conn_cfg =
  cfg_host :: "ustr option"
  cfg_port :: int
  cfg_database :: "ustr option"
  cfg_user :: "ustr option"
  cfg_password :: "ustr option"

text \<open>\<open>_env(key, default)\<close>, lines 24 to 27: \<open>val if val else default\<close>.\<close>

definition env_or :: "(string \<Rightarrow> ustr option) \<Rightarrow> string \<Rightarrow> ustr option \<Rightarrow> ustr option" where
  "env_or env key dflt =
     (case env key of None \<Rightarrow> dflt | Some val \<Rightarrow> if val \<noteq> [] then Some val else dflt)"

text \<open>The message of the \<open>ValueError\<close> of \<open>int\<close>, without the quoting of its argument.\<close>

definition int_literal_msg :: "ustr \<Rightarrow> ustr" where
  "int_literal_msg v = ascii ''invalid literal for int() with base 10: '' @ v"

text \<open>\<open>get_env_config()\<close>, lines 30 to 38; \<open>int(_env("PG_PORT", 5432))\<close> may raise.\<close>

definition get_env_config ::
  "(ustr \<Rightarrow> int option) \<Rightarrow> (string \<Rightarrow> ustr option) \<Rightarrow> exn + conn_cfg" where
  "get_env_config py_int env =
     (case (case env_or env ''PG_PORT'' None of
              None \<Rightarrow> Inr 5432
            | Some v \<Rightarrow> (case py_int v of
                           None \<Rightarrow> Inl (ValueError (int_literal_msg v))
                         | Some n \<Rightarrow> Inr n)) of
        Inl x \<Rightarrow> Inl x
      | Inr port \<Rightarrow>
          Inr \<lparr>cfg_host = env_or env ''PG_HOST'' (Some (ascii ''localhost'')),
               cfg_port = port,
               cfg_database = env_or env ''PG_DATABASE'' None,
               cfg_user = env_or env ''PG_USER'' None,
               cfg_password = env_or env ''PG_PASSWORD'' None\<rparr>)"

text \<open>The truth value of \<open>getattr(args, name, None)\<close> in an \<open>if\<close>: a string is true when it
  is not empty, an integer when it is not zero.\<close>

definition truthy_str :: "ustr option \<Rightarrow> bool" where
  "truthy_str v = (case v of None \<Rightarrow> False | Some s \<Rightarrow> s \<noteq> [])"

definition truthy_int :: "int option \<Rightarrow> bool" where
  "truthy_int v = (case v of None \<Rightarrow> False | Some n \<Rightarrow> n \<noteq> 0)"

text \<open>Lines 81 to 83: \<open>if v == "": cfg[k] = None\<close>.\<close>

definition blank_to_none :: "ustr option \<Rightarrow> ustr option" where
  "blank_to_none v = (if v = Some [] then None else v)"

text \<open>\<open>_merge_cli_env(args)\<close>, lines 65 to 85.\<close>

definition merge_cli_env ::
  "(ustr \<Rightarrow> int option) \<Rightarrow> (string \<Rightarrow> ustr option) \<Rightarrow> cli_args \<Rightarrow> exn + conn_cfg" where
  "merge_cli_env py_int env args =
     (case get_env_config py_int env of
        Inl x \<Rightarrow> Inl x
      | Inr cfg0 \<Rightarrow>
          let cfg1 = (if truthy_str (arg_host args) then cfg0\<lparr>cfg_host := arg_host args\<rparr> else cfg0);
              cfg2 = (case arg_port args of
                        Some n \<Rightarrow> if n \<noteq> 0 then cfg1\<lparr>cfg_port := n\<rparr> else cfg1
                      | None \<Rightarrow> cfg1);
              cfg3 = (if truthy_str (arg_database args)
                      then cfg2\<lparr>cfg_database := arg_database args\<rparr> else cfg2);
              cfg4 = (if truthy_str (arg_user args) then cfg3\<lparr>cfg_user := arg_user args\<rparr> else cfg3);
              cfg5 = (if truthy_str (arg_password args)
                      then cfg4\<lparr>cfg_password := arg_password args\<rparr> else cfg4)
          in Inr (cfg5\<lparr>cfg_host := blank_to_none (cfg_host cfg5),
                       cfg_database := blank_to_none (cfg_database cfg5),
                       cfg_user := blank_to_none (cfg_user cfg5),
                       cfg_password := blank_to_none (cfg_password cfg5)\<rparr>))"

text \<open>The message of lines 98 to 100 and the prefix of the message of line 112.\<close>

definition no_database_msg :: ustr where
  "no_database_msg =
     [12487, 12540, 12479, 12505, 12540, 12473, 21517, 12364, 25351, 23450, 12373, 12428,
      12390, 12356, 12414, 12379, 12435, 65288] @ ascii ''--database'' @
     [32, 12414, 12383, 12399, 32] @ ascii ''PG_DATABASE'' @ [65289]"

definition connect_error_prefix :: ustr where
  "connect_error_prefix =
     [80, 111, 115, 116, 103, 114, 101, 83, 81, 76, 32, 25509, 32154, 22833, 25943, 58, 32]"

text \<open>\<open>get_db_connection_from_args(args)\<close>, lines 88 to 112 (the definition of line 40 is
  replaced by this one when the module is loaded).\<close>

definition get_db_connection_from_args ::
  "(ustr \<Rightarrow> int option) \<Rightarrow> (conn_cfg \<Rightarrow> dberr + 'c) \<Rightarrow> (string \<Rightarrow> ustr option) \<Rightarrow> cli_args
     \<Rightarrow> exn + 'c" where
  "get_db_connection_from_args py_int connect env args =
     (case merge_cli_env py_int env args of
        Inl x \<Rightarrow> Inl x
      | Inr cfg \<Rightarrow>
          if \<not> truthy_str (cfg_database cfg) then Inl (ValueError no_database_msg)
          else (case connect cfg of
                  Inl e \<Rightarrow> Inl (RuntimeError connect_error_prefix e)
                | Inr c \<Rightarrow> Inr c))"

section \<open>Notions used to state the properties\<close>

text \<open>The elements of a list in the order of their first occurrence, each once.\<close>

definition first_occurrences :: "'a list \<Rightarrow> 'a list" where
  "first_occurrences xs = rev (remdups (rev xs))"

text \<open>The invariant of the exporter's loop: \<open>generated\<close> holds exactly the lines printed,
  no line was printed twice, and \<open>count\<close> counts them.\<close>

definition gen_inv :: "gen_state \<Rightarrow> bool" where
  "gen_inv st \<longleftrightarrow>
     generated st = set (out_fp st) \<and> distinct (out_fp st) \<and> gen_count st = length (out_fp st)"

text \<open>The connection state after a run of the exporter, and the text it wrote.\<close>

definition conn_after_export :: "'s dbapi \<Rightarrow> 's \<Rightarrow> 's" where
  "conn_after_export db conn = fst (snd (generate_tsv db conn))"

definition exported_text :: "'s dbapi \<Rightarrow> 's \<Rightarrow> ustr" where
  "exported_text db conn = file_text (fst (snd (snd (generate_tsv db conn))))"

text \<open>The rows of the join that give a line, and the databases in which no two of them
  agree on both sort columns.\<close>

definition exported_rows :: "tables \<Rightarrow> word_pos list" where
  "exported_rows t = filter (\<lambda>r. tsv_line r \<noteq> None) (join_words_pos t)"

definition no_ties :: "(ustr \<Rightarrow> 'k::linorder) \<Rightarrow> tables \<Rightarrow> bool" where
  "no_ties coll t \<longleftrightarrow> distinct (map (sort_columns coll) (exported_rows t))"

text \<open>The collation that compares strings by code points, and two ways in which the
  executor may deliver the rows of the join: as the join lists them, and backwards.\<close>

definition codepoint_order :: "ustr \<Rightarrow> ustr" where
  "codepoint_order s = s"

definition as_joined :: "word_pos list \<Rightarrow> word_pos list" where
  "as_joined rows = rows"

definition backwards :: "word_pos list \<Rightarrow> word_pos list" where
  "backwards rows = rev rows"

text \<open>A small database for the examples: a third part of speech (U+52D5 U+8A5E) beside the
  two seeded ones, and three words, one of each.\<close>

definition demo_tables :: tables where
  "demo_tables =
     \<lparr>has_schema = True,
      pos_codes = [\<lparr>p_code = 1, p_name = koyuu_meishi\<rparr>, \<lparr>p_code = 2, p_name = futsuu_meishi\<rparr>,
                   \<lparr>p_code = 3, p_name = [21205, 35422]\<rparr>],
      attr_codes = [\<lparr>a_id = 1, a_name = [22320, 21517]\<rparr>],
      words =
        [\<lparr>w_id = 1, w_reading = [12383, 12394, 12363], w_word = [30000, 20013],
          w_pos_code = Some 1, w_attr_id = Some 1, w_collocation = Some [8722],
          w_created_at = 0, w_updated_at = 0, w_xmin = 3\<rparr>,
         \<lparr>w_id = 2, w_reading = [12363], w_word = [34442], w_pos_code = Some 2,
          w_attr_id = Some 1, w_collocation = None,
          w_created_at = 1, w_updated_at = 1, w_xmin = 4\<rparr>,
         \<lparr>w_id = 3, w_reading = [12363], w_word = [26360], w_pos_code = Some 3,
          w_attr_id = None, w_collocation = None,
          w_created_at = 1, w_updated_at = 1, w_xmin = 4\<rparr>]\<rparr>"

definition demo_conn :: pg_conn where
  "demo_conn = \<lparr>committed = demo_tables, working = demo_tables,
                pos_seq = 4, attr_seq = 2, word_seq = 4, txn = 2\<rparr>"

text \<open>A database in which one word (reading U+3042, word U+4E9C) is registered both as a
  proper noun and as a common noun.\<close>

definition tie_tables :: tables where
  "tie_tables =
     \<lparr>has_schema = True,
      pos_codes = [\<lparr>p_code = 1, p_name = koyuu_meishi\<rparr>, \<lparr>p_code = 2, p_name = futsuu_meishi\<rparr>],
      attr_codes = [\<lparr>a_id = 1, a_name = [22320, 21517]\<rparr>],
      words =
        [\<lparr>w_id = 1, w_reading = [12354], w_word = [20124],
          w_pos_code = Some 1, w_attr_id = Some 1, w_collocation = Some [8722],
          w_created_at = 0, w_updated_at = 0, w_xmin = 3\<rparr>,
         \<lparr>w_id = 2, w_reading = [12354], w_word = [20124],
          w_pos_code = Some 2, w_attr_id = Some 1, w_collocation = Some [8722],
          w_created_at = 0, w_updated_at = 0, w_xmin = 3\<rparr>]\<rparr>"

definition tie_conn :: pg_conn where
  "tie_conn = \<lparr>committed = tie_tables, working = tie_tables,
               pos_seq = 3, attr_seq = 2, word_seq = 3, txn = 1\<rparr>"

text \<open>
  To count what the retry wrapper does, the three operations it calls are wrapped so that
  they record each call and its outcome in a list of events beside the connection state.
\<close>

datatype db_event =
    Cursor_opened | Cursor_raised exn
  | Attempt_ok | Attempt_raised exn
  | Rolled_back | Rollback_raised exn

definition traced_cursor ::
  "('s \<Rightarrow> (exn + unit) \<times> 's) \<Rightarrow> 's \<times> db_event list \<Rightarrow> (exn + unit) \<times> 's \<times> db_event list" where
  "traced_cursor cursor t =
     (case cursor (fst t) of
        (Inl x, c) \<Rightarrow> (Inl x, c, snd t @ [Cursor_raised x])
      | (Inr u, c) \<Rightarrow> (Inr u, c, snd t @ [Cursor_opened]))"

definition traced_exec ::
  "('s \<Rightarrow> (exn + 'r) \<times> 's) \<Rightarrow> 's \<times> db_event list \<Rightarrow> (exn + 'r) \<times> 's \<times> db_event list" where
  "traced_exec exec t =
     (case exec (fst t) of
        (Inl x, c) \<Rightarrow> (Inl x, c, snd t @ [Attempt_raised x])
      | (Inr r, c) \<Rightarrow> (Inr r, c, snd t @ [Attempt_ok]))"

definition traced_rollback ::
  "('s \<Rightarrow> (exn + unit) \<times> 's) \<Rightarrow> 's \<times> db_event list \<Rightarrow> (exn + unit) \<times> 's \<times> db_event list" where
  "traced_rollback rollback t =
     (case rollback (fst t) of
        (Inl x, c) \<Rightarrow> (Inl x, c, snd t @ [Rollback_raised x])
      | (Inr u, c) \<Rightarrow> (Inr u, c, snd t @ [Rolled_back]))"

text \<open>The events of a sequence of attempts that each failed with a \<open>psycopg2.Error\<close> and
  were rolled back, and the messages that log them from the attempt number \<open>first\<close> on.\<close>

definition failed_attempts :: "dberr list \<Rightarrow> db_event list" where
  "failed_attempts errs =
     concat (map (\<lambda>e. [Cursor_opened, Attempt_raised (DbError e), Rolled_back]) errs)"

primrec retry_log :: "int \<Rightarrow> int \<Rightarrow> dberr list \<Rightarrow> log_msg list" where
  "retry_log first max_retries [] = []"
| "retry_log first max_retries (e # es) =
     LogRetry first max_retries e # retry_log (first + 1) max_retries es"

text \<open>The events that are executions of the query.\<close>

fun is_attempt :: "db_event \<Rightarrow> bool" where
  "is_attempt Attempt_ok = True"
| "is_attempt (Attempt_raised x) = True"
| "is_attempt ev = False"

text \<open>An operation that succeeds and leaves the connection as it is; a query that fails
  with a \<open>psycopg2.Error\<close> on a connection in state \<open>n < k\<close>, moving it to \<open>n + 1\<close>, and
  returns \<open>n\<close> otherwise.\<close>

definition succeeds :: "nat \<Rightarrow> (exn + unit) \<times> nat" where
  "succeeds n = (Inr (), n)"

definition flaky :: "nat \<Rightarrow> nat \<Rightarrow> (exn + nat) \<times> nat" where
  "flaky k n = (if n < k then (Inl (DbError (DbFailure n)), Suc n) else (Inr n, n))"

text \<open>\<open>conn.cursor(...)\<close> on an open PostgreSQL connection.\<close>

definition pg_cursor :: "pg_conn \<Rightarrow> (exn + unit) \<times> pg_conn" where
  "pg_cursor c = (Inr (), c)"

text \<open>A connection that the server has dropped: the query fails with error 0, an
  \<open>OperationalError\<close>, and psycopg2 then refuses the rollback with error 1, an
  \<open>InterfaceError\<close>.\<close>

definition dropped_query :: "nat \<Rightarrow> (exn + nat) \<times> nat" where
  "dropped_query n = (Inl (DbError (DbFailure 0)), n)"

definition dropped_rollback :: "nat \<Rightarrow> (exn + unit) \<times> nat" where
  "dropped_rollback n = (Inl (DbError (DbFailure 1)), n)"

text \<open>
  How a run of the wrapper that starts at the attempt number \<open>a\<close> can end, after attempts
  that failed with the errors \<open>errs\<close> and were rolled back: \<open>ending\<close> is what it recorded
  after them, \<open>r\<close> its result, \<open>lg\<close> what it logged.
\<close>

definition retry_outcome ::
  "int \<Rightarrow> int \<Rightarrow> dberr list \<Rightarrow> db_event list \<Rightarrow> exn + 'r option \<Rightarrow> log_msg list \<Rightarrow> bool" where
  "retry_outcome m a errs ending r lg \<longleftrightarrow>
     (case r of
        Inr (Some rows) \<Rightarrow>
          ending = [Cursor_opened, Attempt_ok] \<and> a + int (length errs) \<le> m \<and>
          lg = retry_log a m errs
      | Inr None \<Rightarrow> ending = [] \<and> errs = [] \<and> m < a \<and> lg = []
      | Inl x \<Rightarrow>
          (ending = [] \<and> errs \<noteq> [] \<and> a + int (length errs) = m + 1 \<and>
           x = DbError (last errs) \<and> lg = retry_log a m (butlast errs)) \<or>
          (a + int (length errs) \<le> m \<and> lg = retry_log a m errs \<and>
           (ending = [Cursor_raised x] \<or>
            (ending = [Cursor_opened, Attempt_raised x] \<and> (\<forall>e. x \<noteq> DbError e)) \<or>
            (\<exists>e. ending = [Cursor_opened, Attempt_raised (DbError e), Rollback_raised x]))))"



text \<open>
  The merge as the specification words it: the flag value when it is provided and not
  empty, otherwise the environment value when that is not empty, otherwise absent.
\<close>

definition flag_or_env :: "ustr option \<Rightarrow> ustr option \<Rightarrow> ustr option" where
  "flag_or_env flag envv =
     (if flag \<noteq> None \<and> flag \<noteq> Some [] then flag
      else if envv \<noteq> None \<and> envv \<noteq> Some [] then envv
      else None)"

text \<open>\<open>PG_PORT\<close> is unset, empty, or a string that \<open>int\<close> accepts.\<close>

definition port_env_ok :: "(ustr \<Rightarrow> int option) \<Rightarrow> (string \<Rightarrow> ustr option) \<Rightarrow> bool" where
  "port_env_ok py_int env =
     (case env ''PG_PORT'' of None \<Rightarrow> True | Some v \<Rightarrow> v = [] \<or> py_int v \<noteq> None)"

text \<open>A reading of plain decimal literals, one instance of \<open>py_int\<close> for the examples.\<close>

fun digits_value :: "ustr \<Rightarrow> int \<Rightarrow> int option" where
  "digits_value [] acc = Some acc"
| "digits_value (c # cs) acc =
     (if 48 \<le> c \<and> c \<le> 57 then digits_value cs (10 * acc + int (c - 48)) else None)"

definition decimal_int :: "ustr \<Rightarrow> int option" where
  "decimal_int s = (if s = [] then None else digits_value s 0)"

text \<open>Flags and environments for the examples.\<close>

definition no_flags :: cli_args where
  "no_flags = \<lparr>arg_host = None, arg_port = None, arg_database = None, arg_user = None,
               arg_password = None\<rparr>"

definition env_blank_host :: "string \<Rightarrow> ustr option" where
  "env_blank_host key = (if key = ''PG_HOST'' then Some [] else None)"

definition demo_env :: "string \<Rightarrow> ustr option" where
  "demo_env key =
     (if key = ''PG_HOST'' then Some (ascii ''db.example'')
      else if key = ''PG_PORT'' then Some (ascii ''6543'')
      else if key = ''PG_DATABASE'' then Some []
      else if key = ''PG_USER'' then Some (ascii ''mozc'')
      else None)"

definition demo_flags :: cli_args where
  "demo_flags = \<lparr>arg_host = Some [], arg_port = Some 0, arg_database = None,
                 arg_user = Some (ascii ''admin''), arg_password = None\<rparr>"

definition never_connect :: "conn_cfg \<Rightarrow> dberr + nat" where
  "never_connect cfg = Inl (DbFailure 0)"











text \<open>
  The example of the specification: the row U+305F U+306A U+304B, U+7530 U+4E2D, proper
  noun, U+5730 U+540D, U+2212; the database right after \<open>initialize_database\<close> on a
  database with nothing in it; and that database after the row has been imported.
\<close>

definition tanaka_row :: "ustr list" where
  "tanaka_row = [[12383, 12394, 12363], [30000, 20013], koyuu_meishi, [22320, 21517], [8722]]"

definition initialized_tables :: tables where
  "initialized_tables =
     \<lparr>has_schema = True,
      pos_codes = [\<lparr>p_code = 1, p_name = koyuu_meishi\<rparr>, \<lparr>p_code = 2, p_name = futsuu_meishi\<rparr>],
      attr_codes = [], words = []\<rparr>"

definition initialized_conn :: pg_conn where
  "initialized_conn = \<lparr>committed = initialized_tables, working = initialized_tables,
                       pos_seq = 3, attr_seq = 1, word_seq = 1, txn = 1\<rparr>"

definition tanaka_tables :: tables where
  "tanaka_tables =
     \<lparr>has_schema = True,
      pos_codes = [\<lparr>p_code = 1, p_name = koyuu_meishi\<rparr>, \<lparr>p_code = 2, p_name = futsuu_meishi\<rparr>],
      attr_codes = [\<lparr>a_id = 1, a_name = [22320, 21517]\<rparr>],
      words =
        [\<lparr>w_id = 1, w_reading = [12383, 12394, 12363], w_word = [30000, 20013],
          w_pos_code = Some 1, w_attr_id = Some 1, w_collocation = Some [8722],
          w_created_at = 2, w_updated_at = 2, w_xmin = 5\<rparr>]\<rparr>"

definition tanaka_conn :: pg_conn where
  "tanaka_conn = \<lparr>committed = tanaka_tables, working = tanaka_tables,
                  pos_seq = 3, attr_seq = 2, word_seq = 2, txn = 3\<rparr>"

text \<open>A row whose reading and word, if it has them, fit the columns of \<open>words\<close>.\<close>

definition fits_columns :: "ustr list \<Rightarrow> bool" where
  "fits_columns row =
     (case row of rd # wd # rest \<Rightarrow> length rd \<le> 255 \<and> length wd \<le> 255 | _ \<Rightarrow> True)"

text \<open>
  A row that the database refuses: its reading has 256 characters, more than the column
  holds. \<open>attr_only_tables\<close> is the example database with the attribute of the example row
  and no word, \<open>lost_row_conn\<close> the connection after the import of the example row followed
  by the refused row.
\<close>

definition long_reading_row :: "ustr list" where
  "long_reading_row = [replicate 256 120, [65], koyuu_meishi, [22320, 21517], [8722]]"

definition attr_only_tables :: tables where
  "attr_only_tables =
     \<lparr>has_schema = True,
      pos_codes = [\<lparr>p_code = 1, p_name = koyuu_meishi\<rparr>, \<lparr>p_code = 2, p_name = futsuu_meishi\<rparr>],
      attr_codes = [\<lparr>a_id = 1, a_name = [22320, 21517]\<rparr>],
      words = []\<rparr>"

definition lost_row_conn :: pg_conn where
  "lost_row_conn = \<lparr>committed = attr_only_tables, working = attr_only_tables,
                    pos_seq = 3, attr_seq = 2, word_seq = 2, txn = 4\<rparr>"

text \<open>The connection after the example row has been written and before anything is
  committed but its attribute.\<close>

definition tanaka_written :: pg_conn where
  "tanaka_written = \<lparr>committed = attr_only_tables, working = tanaka_tables,
                     pos_seq = 3, attr_seq = 2, word_seq = 2, txn = 2\<rparr>"

section \<open>The exporter's loop\<close>

lemma remdups_drop_mid: "l \<in> set B \<Longrightarrow> remdups (A @ l # B) = remdups (A @ B)"
  by (induction A) auto

lemma first_occurrences_snoc:
  "first_occurrences (xs @ [l]) =
     (if l \<in> set xs then first_occurrences xs else first_occurrences xs @ [l])"
  by (simp add: first_occurrences_def)

lemma first_occurrences_distinct: "distinct xs \<Longrightarrow> first_occurrences xs = xs"
  by (simp add: first_occurrences_def distinct_remdups_id)

lemma first_occurrences_seen:
  "l \<in> set xs \<Longrightarrow> first_occurrences (xs @ l # ys) = first_occurrences (xs @ ys)"
  by (simp add: first_occurrences_def remdups_drop_mid)

lemma distinct_first_occurrences: "distinct (first_occurrences xs)"
  by (simp add: first_occurrences_def)

lemma set_first_occurrences: "set (first_occurrences xs) = set xs"
  by (simp add: first_occurrences_def)

lemma subseq_first_occurrences: "subseq (first_occurrences xs) xs"
proof (induction xs rule: rev_induct)
  case Nil
  show ?case by (simp add: first_occurrences_def)
next
  case (snoc l xs)
  show ?case
  proof (cases "l \<in> set xs")
    case True
    then show ?thesis using snoc by (simp add: first_occurrences_snoc subseq_rev_drop_many)
  next
    case False
    then show ?thesis using snoc by (simp add: first_occurrences_snoc)
  qed
qed

lemma tsv_step_out:
  "out_fp (tsv_step row st) =
     (case tsv_line row of None \<Rightarrow> out_fp st
      | Some l \<Rightarrow> if l \<in> generated st then out_fp st else out_fp st @ [l])"
  by (simp add: tsv_step_def split: option.split)

lemma tsv_step_stderr:
  "gen_stderr (tsv_step row st) =
     gen_stderr st @ (case tsv_line row of None \<Rightarrow> [LogSkipPos row] | Some l \<Rightarrow> [])"
  by (simp add: tsv_step_def split: option.split)

lemma tsv_step_inv: "gen_inv st \<Longrightarrow> gen_inv (tsv_step row st)"
  by (simp add: tsv_step_def gen_inv_def split: option.split)

lemma tsv_loop_inv: "gen_inv st \<Longrightarrow> gen_inv (tsv_loop rows st)"
  by (induction rows arbitrary: st) (simp_all add: tsv_step_inv)

lemma tsv_loop_out:
  "gen_inv st \<Longrightarrow>
   out_fp (tsv_loop rows st) = first_occurrences (out_fp st @ List.map_filter tsv_line rows)"
proof (induction rows arbitrary: st)
  case Nil
  then show ?case by (simp add: List.map_filter_simps first_occurrences_distinct gen_inv_def)
next
  case (Cons row rows)
  have inv': "gen_inv (tsv_step row st)" using Cons.prems by (rule tsv_step_inv)
  have gen: "generated st = set (out_fp st)"
    using Cons.prems by (simp add: gen_inv_def)
  have "out_fp (tsv_loop (row # rows) st) =
        first_occurrences (out_fp (tsv_step row st) @ List.map_filter tsv_line rows)"
    using Cons.IH[OF inv'] by simp
  also have "\<dots> = first_occurrences (out_fp st @ List.map_filter tsv_line (row # rows))"
  proof (cases "tsv_line row")
    case None
    then show ?thesis by (simp add: tsv_step_out List.map_filter_simps)
  next
    case (Some l)
    show ?thesis
    proof (cases "l \<in> set (out_fp st)")
      case True
      then show ?thesis using Some gen
        by (simp add: tsv_step_out List.map_filter_simps first_occurrences_seen)
    next
      case False
      then show ?thesis using Some gen
        by (simp add: tsv_step_out List.map_filter_simps)
    qed
  qed
  finally show ?case .
qed

lemma tsv_loop_stderr:
  "gen_stderr (tsv_loop rows st) =
     gen_stderr st @ map LogSkipPos (filter (\<lambda>r. tsv_line r = None) rows)"
  by (induction rows arbitrary: st) (auto simp add: tsv_step_stderr split: option.split)

lemma gen_inv_init:
  "gen_inv \<lparr>generated = {}, gen_count = 0, out_fp = [], gen_stderr = []\<rparr>"
  by (simp add: gen_inv_def)

text \<open>What \<open>generate_tsv\<close> returns on the rows it fetched, for any connection.\<close>

lemma generate_tsv_rows:
  assumes "select_words_with_pos db conn = (Inr rows, conn')"
  shows "generate_tsv db conn =
           (Inr (length (first_occurrences (List.map_filter tsv_line rows))), conn',
            first_occurrences (List.map_filter tsv_line rows),
            map LogSkipPos (filter (\<lambda>r. tsv_line r = None) rows) @
              [LogGenerated (length (first_occurrences (List.map_filter tsv_line rows)))])"
proof -
  let ?st = "tsv_loop rows \<lparr>generated = {}, gen_count = 0, out_fp = [], gen_stderr = []\<rparr>"
  have out: "out_fp ?st = first_occurrences (List.map_filter tsv_line rows)"
    using tsv_loop_out[OF gen_inv_init, of rows] by simp
  have cnt: "gen_count ?st = length (out_fp ?st)"
    using tsv_loop_inv[OF gen_inv_init, of rows] by (simp add: gen_inv_def)
  have err: "gen_stderr ?st = map LogSkipPos (filter (\<lambda>r. tsv_line r = None) rows)"
    by (simp add: tsv_loop_stderr)
  show ?thesis
    using assms by (simp add: generate_tsv_def Let_def cnt out err)
qed

lemma set_map_filter_Some: "set (List.map_filter f xs) = {y. \<exists>x \<in> set xs. f x = Some y}"
  by (induction xs) (auto simp add: List.map_filter_simps split: option.splits)

lemma exported_text_rows:
  "select_words_with_pos db conn = (Inr rows, conn') \<Longrightarrow>
   exported_text db conn = file_text (first_occurrences (List.map_filter tsv_line rows))"
  by (simp add: exported_text_def generate_tsv_rows)

lemma pg_select_words:
  "has_schema (working c) \<Longrightarrow>
   select_words_with_pos (postgres coll arr) c = (Inr (words_with_pos coll arr (working c)), c)"
  by (simp add: postgres_def pg_select_words_with_pos_def pg_execute_def)

lemma pg_select_words_no_schema:
  "\<not> has_schema (working c) \<Longrightarrow>
   select_words_with_pos (postgres coll arr) c = (Inl (DbError UndefinedTable), c)"
  by (simp add: postgres_def pg_select_words_with_pos_def pg_execute_def)

lemma pg_export_conn: "conn_after_export (postgres coll arr) c = c"
  by (simp add: conn_after_export_def generate_tsv_def postgres_def
      pg_select_words_with_pos_def pg_execute_def Let_def)

lemma mset_delivered: "mset (delivered arr rows) = mset rows"
  by (simp add: delivered_def)

lemma mset_words_with_pos: "mset (words_with_pos coll arr t) = mset (join_words_pos t)"
  by (simp add: words_with_pos_def mset_delivered)

lemma demo_rows:
  "words_with_pos codepoint_order as_joined demo_tables =
     [\<lparr>reading = [12363], word = [26360], pos_name = [21205, 35422]\<rparr>,
      \<lparr>reading = [12363], word = [34442], pos_name = futsuu_meishi\<rparr>,
      \<lparr>reading = [12383, 12394, 12363], word = [30000, 20013], pos_name = koyuu_meishi\<rparr>]"
  by (simp add: words_with_pos_def join_words_pos_def sort_columns_def sort_key_def
      demo_tables_def delivered_def as_joined_def codepoint_order_def)

text \<open>A list whose keys are pairwise distinct has one sorted rearrangement only.\<close>

lemma sort_key_unique:
  fixes f :: "'a \<Rightarrow> 'k::linorder"
  assumes m: "mset xs = mset ys" and d: "distinct (map f xs)"
  shows "sort_key f xs = sort_key f ys"
proof -
  have mk: "mset (map f xs) = mset (map f ys)"
    using m by (metis mset_map)
  have dy: "distinct (map f ys)"
    using d mk by (metis mset_eq_imp_distinct_iff)
  have s: "set xs = set ys"
    using m by (rule mset_eq_setD)
  have "map f (sort_key f xs) = map f (sort_key f ys)"
  proof (rule sorted_distinct_set_unique)
    show "sorted (map f (sort_key f xs))" by (rule sorted_sort_key)
    show "sorted (map f (sort_key f ys))" by (rule sorted_sort_key)
    show "distinct (map f (sort_key f xs))" using d by (simp add: distinct_map)
    show "distinct (map f (sort_key f ys))" using dy by (simp add: distinct_map)
    show "set (map f (sort_key f xs)) = set (map f (sort_key f ys))" using s by simp
  qed
  moreover have "inj_on f (set (sort_key f xs) \<union> set (sort_key f ys))"
    using d s by (simp add: distinct_map)
  ultimately show ?thesis
    by (simp add: inj_on_map_eq_map)
qed

lemma map_filter_as_filter:
  "List.map_filter f xs = map (\<lambda>x. the (f x)) (filter (\<lambda>x. f x \<noteq> None) xs)"
  by (induction xs) (auto simp add: List.map_filter_simps split: option.splits)

text \<open>In a database without ties, the lines of the fetched rows do not depend on how the
  executor delivered the rows.\<close>

lemma lines_no_ties:
  fixes coll :: "ustr \<Rightarrow> 'k::linorder"
  assumes "no_ties coll t"
  shows "List.map_filter tsv_line (words_with_pos coll arr1 t) =
         List.map_filter tsv_line (words_with_pos coll arr2 t)"
proof -
  let ?P = "\<lambda>r. tsv_line r \<noteq> None"
  let ?K = "sort_columns coll"
  have m: "mset (filter ?P (delivered arr1 (join_words_pos t))) =
           mset (filter ?P (join_words_pos t))"
    by (simp add: mset_delivered)
  have m2: "mset (filter ?P (join_words_pos t)) =
            mset (filter ?P (delivered arr2 (join_words_pos t)))"
    by (simp add: mset_delivered)
  have d: "distinct (map ?K (filter ?P (join_words_pos t)))"
    using assms by (simp add: no_ties_def exported_rows_def)
  have "sort_key ?K (filter ?P (delivered arr1 (join_words_pos t))) =
        sort_key ?K (filter ?P (join_words_pos t))"
    by (rule sort_key_unique[OF m[symmetric] d, symmetric])
  also have "\<dots> = sort_key ?K (filter ?P (delivered arr2 (join_words_pos t)))"
    by (rule sort_key_unique[OF m2 d])
  finally have "filter ?P (words_with_pos coll arr1 t) = filter ?P (words_with_pos coll arr2 t)"
    by (simp add: words_with_pos_def filter_sort)
  then show ?thesis
    by (simp add: map_filter_as_filter)
qed

lemma exported_text_no_schema:
  "\<not> has_schema (working c) \<Longrightarrow> exported_text (postgres coll arr) c = []"
  by (simp add: exported_text_def generate_tsv_def pg_select_words_no_schema file_text_def)

lemma exported_text_pg:
  "has_schema (working c) \<Longrightarrow>
   exported_text (postgres coll arr) c =
     file_text (first_occurrences (List.map_filter tsv_line (words_with_pos coll arr (working c))))"
  by (rule exported_text_rows[OF pg_select_words])

lemma exported_text_no_ties:
  fixes coll :: "ustr \<Rightarrow> 'k::linorder"
  assumes "no_ties coll (working c)"
  shows "exported_text (postgres coll arr1) c = exported_text (postgres coll arr2) c"
proof (cases "has_schema (working c)")
  case True
  then show ?thesis
    using lines_no_ties[OF assms, of arr1 arr2] by (simp add: exported_text_pg)
next
  case False
  then show ?thesis by (simp add: exported_text_no_schema)
qed

lemma tie_rows:
  "words_with_pos codepoint_order as_joined tie_tables =
     [\<lparr>reading = [12354], word = [20124], pos_name = koyuu_meishi\<rparr>,
      \<lparr>reading = [12354], word = [20124], pos_name = futsuu_meishi\<rparr>]"
  "words_with_pos codepoint_order backwards tie_tables =
     [\<lparr>reading = [12354], word = [20124], pos_name = futsuu_meishi\<rparr>,
      \<lparr>reading = [12354], word = [20124], pos_name = koyuu_meishi\<rparr>]"
  by (simp_all add: words_with_pos_def join_words_pos_def sort_columns_def sort_key_def
      tie_tables_def delivered_def as_joined_def backwards_def codepoint_order_def)

lemma demo_no_ties: "no_ties codepoint_order demo_tables"
  by (simp add: no_ties_def exported_rows_def join_words_pos_def sort_columns_def
      demo_tables_def codepoint_order_def tsv_line_def koyuu_meishi_def futsuu_meishi_def)

lemma demo_working:
  "working demo_conn = demo_tables" "committed demo_conn = demo_tables"
  "has_schema demo_tables"
  by (simp_all add: demo_conn_def demo_tables_def)

lemma fresh_working:
  "working fresh_conn = empty_tables" "committed fresh_conn = empty_tables"
  "\<not> has_schema empty_tables"
  by (simp_all add: fresh_conn_def empty_tables_def)

section \<open>Claims about the exporter\<close>

text \<open>
  Claim C4 (export line generation). On a PostgreSQL connection \<open>c\<close>, with \<open>rows\<close> the rows
  the join query returns and \<open>out\<close> the lines \<open>generate_tsv\<close> prints:
  the rows fetched are the rows of the join, in ascending order of \<open>(reading, word)\<close>; a
  row whose \<open>pos_name\<close> is the proper-noun name gives the line reading TAB 1920 TAB 1920 TAB
  4001 TAB word, one whose \<open>pos_name\<close> is the common-noun name gives reading TAB 1851 TAB
  1851 TAB 4000 TAB word, any other row gives no line; where the tables exist,
  \<open>generate_tsv\<close> raises nothing, leaves the connection as it was, prints the lines of the
  rows in fetch order with every repetition of an earlier line left out, logs each row
  without a line, and reports as count the number of lines printed; where the tables do
  not exist, the error of the query leaves \<open>generate_tsv\<close> with nothing printed; on any
  connection that returns rows, what is printed, logged and counted is this function of
  the rows; the printed lines are pairwise distinct, they are exactly the lines of the
  fetched rows, and they stand in the order of the fetched rows.
\<close>

theorem C4_export_line_generation:
  fixes coll :: "ustr \<Rightarrow> 'k::linorder" and arr :: "word_pos list \<Rightarrow> word_pos list"
  defines "rows \<equiv> \<lambda>c. words_with_pos coll arr (working c)"
  defines "out \<equiv> \<lambda>c. first_occurrences (List.map_filter tsv_line (rows c))"
  shows
    "mset (rows c) = mset (join_words_pos (working c)) \<and>
     sorted (map (sort_columns coll) (rows c)) \<and>
     (\<forall>row. pos_name row = koyuu_meishi \<longrightarrow>
        tsv_line row = Some (reading row @ TAB @ ascii ''1920'' @ TAB @ ascii ''1920'' @ TAB @
                             ascii ''4001'' @ TAB @ word row)) \<and>
     (\<forall>row. pos_name row = futsuu_meishi \<longrightarrow>
        tsv_line row = Some (reading row @ TAB @ ascii ''1851'' @ TAB @ ascii ''1851'' @ TAB @
                             ascii ''4000'' @ TAB @ word row)) \<and>
     (\<forall>row. pos_name row \<noteq> koyuu_meishi \<and> pos_name row \<noteq> futsuu_meishi \<longrightarrow>
        tsv_line row = None) \<and>
     (has_schema (working c) \<longrightarrow>
        generate_tsv (postgres coll arr) c =
          (Inr (length (out c)), c, out c,
           map LogSkipPos (filter (\<lambda>r. tsv_line r = None) (rows c)) @
             [LogGenerated (length (out c))])) \<and>
     (\<not> has_schema (working c) \<longrightarrow>
        generate_tsv (postgres coll arr) c = (Inl (DbError UndefinedTable), c, [], [])) \<and>
     (select_words_with_pos db conn = (Inr rs, conn') \<longrightarrow>
        generate_tsv db conn =
          (Inr (length (first_occurrences (List.map_filter tsv_line rs))), conn',
           first_occurrences (List.map_filter tsv_line rs),
           map LogSkipPos (filter (\<lambda>r. tsv_line r = None) rs) @
             [LogGenerated (length (first_occurrences (List.map_filter tsv_line rs)))])) \<and>
     distinct (out c) \<and>
     set (out c) = {l. \<exists>r \<in> set (rows c). tsv_line r = Some l} \<and>
     subseq (out c) (List.map_filter tsv_line (rows c))"
proof -
  have ms: "mset (rows c) = mset (join_words_pos (working c))"
    by (simp add: rows_def mset_words_with_pos)
  have srt: "sorted (map (sort_columns coll) (rows c))"
    by (simp add: rows_def words_with_pos_def sorted_sort_key)
  have neq: "koyuu_meishi \<noteq> futsuu_meishi"
    by (simp add: koyuu_meishi_def futsuu_meishi_def)
  have lines: "set (out c) = {l. \<exists>r \<in> set (rows c). tsv_line r = Some l}"
    by (simp add: out_def set_first_occurrences set_map_filter_Some)
  have run: "has_schema (working c) \<longrightarrow>
        generate_tsv (postgres coll arr) c =
          (Inr (length (out c)), c, out c,
           map LogSkipPos (filter (\<lambda>r. tsv_line r = None) (rows c)) @
             [LogGenerated (length (out c))])"
    using generate_tsv_rows[OF pg_select_words, of c coll arr] by (simp add: rows_def out_def)
  have none: "\<not> has_schema (working c) \<longrightarrow>
        generate_tsv (postgres coll arr) c = (Inl (DbError UndefinedTable), c, [], [])"
    by (simp add: generate_tsv_def pg_select_words_no_schema)
  have any: "select_words_with_pos db conn = (Inr rs, conn') \<longrightarrow>
        generate_tsv db conn =
          (Inr (length (first_occurrences (List.map_filter tsv_line rs))), conn',
           first_occurrences (List.map_filter tsv_line rs),
           map LogSkipPos (filter (\<lambda>r. tsv_line r = None) rs) @
             [LogGenerated (length (first_occurrences (List.map_filter tsv_line rs)))])"
    using generate_tsv_rows[of db conn rs conn'] by simp
  have lns: "(\<forall>row. pos_name row = koyuu_meishi \<longrightarrow>
        tsv_line row = Some (reading row @ TAB @ ascii ''1920'' @ TAB @ ascii ''1920'' @ TAB @
                             ascii ''4001'' @ TAB @ word row)) \<and>
     (\<forall>row. pos_name row = futsuu_meishi \<longrightarrow>
        tsv_line row = Some (reading row @ TAB @ ascii ''1851'' @ TAB @ ascii ''1851'' @ TAB @
                             ascii ''4000'' @ TAB @ word row)) \<and>
     (\<forall>row. pos_name row \<noteq> koyuu_meishi \<and> pos_name row \<noteq> futsuu_meishi \<longrightarrow>
        tsv_line row = None)"
    using neq by (simp add: tsv_line_def)
  have d: "distinct (out c)"
    by (simp add: out_def distinct_first_occurrences)
  have sub: "subseq (out c) (List.map_filter tsv_line (rows c))"
    by (simp add: out_def subseq_first_occurrences)
  show ?thesis
    using ms srt lns run none any d lines sub by blast
qed

theorem C4_export_line_generation_witness:
  "pos_name \<lparr>reading = [12383, 12394, 12363], word = [30000, 20013],
              pos_name = koyuu_meishi\<rparr> = koyuu_meishi \<and>
   tsv_line \<lparr>reading = [12383, 12394, 12363], word = [30000, 20013], pos_name = koyuu_meishi\<rparr> =
     Some [12383, 12394, 12363, 9, 49, 57, 50, 48, 9, 49, 57, 50, 48, 9, 52, 48, 48, 49, 9,
           30000, 20013] \<and>
   pos_name \<lparr>reading = [12363], word = [34442], pos_name = futsuu_meishi\<rparr> = futsuu_meishi \<and>
   tsv_line \<lparr>reading = [12363], word = [34442], pos_name = futsuu_meishi\<rparr> =
     Some [12363, 9, 49, 56, 53, 49, 9, 49, 56, 53, 49, 9, 52, 48, 48, 48, 9, 34442] \<and>
   tsv_line \<lparr>reading = [12363], word = [26360], pos_name = [21205, 35422]\<rparr> = None \<and>
   has_schema (working demo_conn) \<and>
   generate_tsv (postgres codepoint_order as_joined) demo_conn =
     (Inr 2, demo_conn,
      [[12363, 9, 49, 56, 53, 49, 9, 49, 56, 53, 49, 9, 52, 48, 48, 48, 9, 34442],
       [12383, 12394, 12363, 9, 49, 57, 50, 48, 9, 49, 57, 50, 48, 9, 52, 48, 48, 49, 9,
        30000, 20013]],
      [LogSkipPos \<lparr>reading = [12363], word = [26360], pos_name = [21205, 35422]\<rparr>,
       LogGenerated 2]) \<and>
   \<not> has_schema (working fresh_conn) \<and>
   generate_tsv (postgres codepoint_order as_joined) fresh_conn =
     (Inl (DbError UndefinedTable), fresh_conn, [], [])"
  using C4_export_line_generation[where coll = codepoint_order and arr = as_joined
          and c = demo_conn and db = "postgres codepoint_order as_joined"
          and conn = demo_conn and conn' = demo_conn
          and rs = "words_with_pos codepoint_order as_joined demo_tables"]
        C4_export_line_generation[where coll = codepoint_order and arr = as_joined
          and c = fresh_conn and db = "postgres codepoint_order as_joined"
          and conn = demo_conn and conn' = demo_conn
          and rs = "words_with_pos codepoint_order as_joined demo_tables"]
  by (simp add: demo_working fresh_working demo_rows List.map_filter_simps tsv_line_def
      first_occurrences_def koyuu_meishi_def futsuu_meishi_def TAB_def ascii_def)

text \<open>
  Claim C5 (export determinism), as the code has it. The text the exporter writes depends
  on nothing but the rows it fetched: two runs, on any connections, that fetch the same
  rows write the same text. The rows fetched from a PostgreSQL database are its join rows
  sorted by \<open>(reading, word)\<close>; the query leaves open the order of rows that agree on both
  columns. So on a database in which no two rows that give a line agree on both sort
  columns, a second run writes the text of the first, however the executor delivers the
  rows in either run: on the same connection, and, with nothing uncommitted, on a new
  connection after the first was closed.
\<close>

theorem C5_export_deterministic:
  fixes coll :: "ustr \<Rightarrow> 'k::linorder"
  shows
  "(select_words_with_pos db1 c1 = (Inr rows, c1') \<and>
    select_words_with_pos db2 c2 = (Inr rows, c2')
      \<longrightarrow> exported_text db1 c1 = exported_text db2 c2) \<and>
   (no_ties coll (working c) \<longrightarrow>
      exported_text (postgres coll arr2) (conn_after_export (postgres coll arr1) c) =
      exported_text (postgres coll arr1) c) \<and>
   (no_ties coll (committed c) \<and> working c = committed c \<longrightarrow>
      exported_text (postgres coll arr2) (reconnect (conn_after_export (postgres coll arr1) c)) =
      exported_text (postgres coll arr1) c)"
proof -
  have a: "select_words_with_pos db1 c1 = (Inr rows, c1') \<and>
           select_words_with_pos db2 c2 = (Inr rows, c2')
      \<longrightarrow> exported_text db1 c1 = exported_text db2 c2"
    by (simp add: exported_text_rows)
  have b: "no_ties coll (working c) \<longrightarrow>
      exported_text (postgres coll arr2) c = exported_text (postgres coll arr1) c"
    using exported_text_no_ties[of coll c arr2 arr1] by simp
  have r: "working c = committed c \<longrightarrow>
      exported_text (postgres coll arr2) (reconnect c) = exported_text (postgres coll arr2) c"
  proof
    assume w: "working c = committed c"
    show "exported_text (postgres coll arr2) (reconnect c) = exported_text (postgres coll arr2) c"
    proof (cases "has_schema (working c)")
      case True
      then show ?thesis
        using w by (simp add: exported_text_pg reconnect_def pg_rollback_def)
    next
      case False
      then show ?thesis
        using w by (simp add: exported_text_no_schema reconnect_def pg_rollback_def)
    qed
  qed
  show ?thesis
    using a b r by (simp add: pg_export_conn)
qed

theorem C5_export_deterministic_witness:
  "select_words_with_pos (postgres codepoint_order as_joined) demo_conn =
     (Inr (words_with_pos codepoint_order as_joined demo_tables), demo_conn) \<and>
   select_words_with_pos (postgres codepoint_order as_joined) (demo_conn\<lparr>txn := 7\<rparr>) =
     (Inr (words_with_pos codepoint_order as_joined demo_tables), demo_conn\<lparr>txn := 7\<rparr>) \<and>
   exported_text (postgres codepoint_order as_joined) demo_conn =
     exported_text (postgres codepoint_order as_joined) (demo_conn\<lparr>txn := 7\<rparr>) \<and>
   no_ties codepoint_order (working demo_conn) \<and>
   exported_text (postgres codepoint_order backwards)
       (conn_after_export (postgres codepoint_order as_joined) demo_conn) =
     exported_text (postgres codepoint_order as_joined) demo_conn \<and>
   no_ties codepoint_order (committed demo_conn) \<and>
   working demo_conn = committed demo_conn \<and>
   exported_text (postgres codepoint_order backwards)
       (reconnect (conn_after_export (postgres codepoint_order as_joined) demo_conn)) =
     exported_text (postgres codepoint_order as_joined) demo_conn"
  using C5_export_deterministic[where ?db1.0 = "postgres codepoint_order as_joined"
          and ?c1.0 = demo_conn and rows = "words_with_pos codepoint_order as_joined demo_tables"
          and ?c1' = demo_conn and ?db2.0 = "postgres codepoint_order as_joined"
          and ?c2.0 = "demo_conn\<lparr>txn := 7\<rparr>" and ?c2' = "demo_conn\<lparr>txn := 7\<rparr>"
          and coll = codepoint_order and c = demo_conn and ?arr2.0 = backwards
          and ?arr1.0 = as_joined]
        demo_no_ties
  by (simp add: pg_select_words demo_working)

text \<open>
  The claim as the specification words it, for every fixed database state, fails where one
  word is registered under both parts of speech: the two rows agree on \<open>(reading, word)\<close>,
  and two runs to which the executor delivers them in different orders write the two
  lines in different orders.
\<close>

theorem C5_export_deterministic_counterexample:
  "working tie_conn = committed tie_conn \<and>
   exported_text (postgres codepoint_order as_joined) tie_conn =
     [12354, 9, 49, 57, 50, 48, 9, 49, 57, 50, 48, 9, 52, 48, 48, 49, 9, 20124, 10,
      12354, 9, 49, 56, 53, 49, 9, 49, 56, 53, 49, 9, 52, 48, 48, 48, 9, 20124, 10] \<and>
   exported_text (postgres codepoint_order backwards)
       (reconnect (conn_after_export (postgres codepoint_order as_joined) tie_conn)) =
     [12354, 9, 49, 56, 53, 49, 9, 49, 56, 53, 49, 9, 52, 48, 48, 48, 9, 20124, 10,
      12354, 9, 49, 57, 50, 48, 9, 49, 57, 50, 48, 9, 52, 48, 48, 49, 9, 20124, 10]"
proof -
  have w: "working tie_conn = tie_tables" "committed tie_conn = tie_tables"
    by (simp_all add: tie_conn_def)
  have h: "has_schema tie_tables"
    by (simp add: tie_tables_def)
  have r: "working (reconnect tie_conn) = tie_tables"
    by (simp add: reconnect_def pg_rollback_def w)
  show ?thesis
    by (simp add: pg_export_conn exported_text_pg w h r tie_rows List.map_filter_simps
        tsv_line_def first_occurrences_def file_text_def koyuu_meishi_def futsuu_meishi_def
        TAB_def NL_def ascii_def)
qed

section \<open>The retry wrapper\<close>

declare retry_from.simps [simp del]

lemma failed_attempts_Cons:
  "failed_attempts (e # es) =
     Cursor_opened # Attempt_raised (DbError e) # Rolled_back # failed_attempts es"
  by (simp add: failed_attempts_def)

lemma failed_attempts_Nil: "failed_attempts [] = []"
  by (simp add: failed_attempts_def)

text \<open>The paths through one iteration of the loop.\<close>

lemma retry_from_done:
  "\<not> a \<le> m \<Longrightarrow> retry_from cu ex rb m a c log = (Inr None, c, log)"
  by (simp add: retry_from.simps[of cu ex rb m a])

lemma retry_from_cursor_raised:
  "a \<le> m \<Longrightarrow> cu c = (Inl x, c0) \<Longrightarrow> retry_from cu ex rb m a c log = (Inl x, c0, log)"
  by (simp add: retry_from.simps[of cu ex rb m a])

lemma retry_from_ok:
  "a \<le> m \<Longrightarrow> cu c = (Inr u, c0) \<Longrightarrow> ex c0 = (Inr rows, c1) \<Longrightarrow>
   retry_from cu ex rb m a c log = (Inr (Some rows), c1, log)"
  by (simp add: retry_from.simps[of cu ex rb m a])

lemma retry_from_not_caught:
  "a \<le> m \<Longrightarrow> cu c = (Inr u, c0) \<Longrightarrow> ex c0 = (Inl x, c1) \<Longrightarrow> \<forall>e. x \<noteq> DbError e \<Longrightarrow>
   retry_from cu ex rb m a c log = (Inl x, c1, log)"
  by (cases x) (simp_all add: retry_from.simps[of cu ex rb m a])

lemma retry_from_rollback_raised:
  "a \<le> m \<Longrightarrow> cu c = (Inr u, c0) \<Longrightarrow> ex c0 = (Inl (DbError e), c1) \<Longrightarrow>
   rb c1 = (Inl x, c2) \<Longrightarrow> retry_from cu ex rb m a c log = (Inl x, c2, log)"
  by (simp add: retry_from.simps[of cu ex rb m a])

lemma retry_from_last:
  "cu c = (Inr u, c0) \<Longrightarrow> ex c0 = (Inl (DbError e), c1) \<Longrightarrow> rb c1 = (Inr u', c2) \<Longrightarrow>
   retry_from cu ex rb m m c log = (Inl (DbError e), c2, log)"
  by (simp add: retry_from.simps[of cu ex rb m m])

lemma retry_from_again:
  "a < m \<Longrightarrow> cu c = (Inr u, c0) \<Longrightarrow> ex c0 = (Inl (DbError e), c1) \<Longrightarrow>
   rb c1 = (Inr u', c2) \<Longrightarrow>
   retry_from cu ex rb m a c log =
     retry_from cu ex rb m (a + 1) c2 (log @ [LogRetry a m e])"
  by (simp add: retry_from.simps[of cu ex rb m a])

lemma retry_paths:
  fixes a m :: int
  obtains
    (empty_range) "\<not> a \<le> m"
  | (cursor_raised) x c0 where "a \<le> m" "cu c = (Inl x, c0)"
  | (ok) u c0 rows c1 where "a \<le> m" "cu c = (Inr u, c0)" "ex c0 = (Inr rows, c1)"
  | (not_caught) u c0 x c1 where "a \<le> m" "cu c = (Inr u, c0)" "ex c0 = (Inl x, c1)"
      "\<forall>e. x \<noteq> DbError e"
  | (rollback_raised) u c0 e c1 x c2 where "a \<le> m" "cu c = (Inr u, c0)"
      "ex c0 = (Inl (DbError e), c1)" "rb c1 = (Inl x, c2)"
  | (last_failed) u c0 e c1 u' c2 where "a = m" "cu c = (Inr u, c0)"
      "ex c0 = (Inl (DbError e), c1)" "rb c1 = (Inr u', c2)"
  | (again) u c0 e c1 u' c2 where "a < m" "cu c = (Inr u, c0)"
      "ex c0 = (Inl (DbError e), c1)" "rb c1 = (Inr u', c2)"
proof (cases "a \<le> m")
  case False
  then show ?thesis by (rule empty_range)
next
  case le: True
  obtain r0 c0 where cu: "cu c = (r0, c0)" by (cases "cu c")
  show ?thesis
  proof (cases r0)
    case (Inl x)
    with le cu show ?thesis by (auto intro: cursor_raised)
  next
    case u: (Inr u)
    obtain r1 c1 where ex: "ex c0 = (r1, c1)" by (cases "ex c0")
    show ?thesis
    proof (cases r1)
      case (Inr rows)
      with le cu u ex show ?thesis by (auto intro: ok)
    next
      case x: (Inl x)
      show ?thesis
      proof (cases "\<exists>e. x = DbError e")
        case False
        with le cu u ex x show ?thesis by (auto intro: not_caught)
      next
        case True
        then obtain e where e: "x = DbError e" by blast
        obtain r2 c2 where rb: "rb c1 = (r2, c2)" by (cases "rb c1")
        show ?thesis
        proof (cases r2)
          case (Inl y)
          with le cu u ex x e rb show ?thesis by (auto intro: rollback_raised)
        next
          case (Inr u')
          show ?thesis
          proof (cases "a < m")
            case True
            with cu u ex x e rb Inr show ?thesis by (auto intro: again)
          next
            case False
            with le have "a = m" by simp
            with cu u ex x e rb Inr show ?thesis by (auto intro: last_failed)
          qed
        qed
      qed
    qed
  qed
qed

text \<open>What a recording operation returns and records.\<close>

lemma traced_cursor_Inl:
  "traced_cursor cu t = (Inl x, t0) \<Longrightarrow>
   cu (fst t) = (Inl x, fst t0) \<and> snd t0 = snd t @ [Cursor_raised x]"
  by (cases "cu (fst t)"; cases "fst (cu (fst t))") (auto simp add: traced_cursor_def)

lemma traced_cursor_Inr:
  "traced_cursor cu t = (Inr u, t0) \<Longrightarrow>
   cu (fst t) = (Inr u, fst t0) \<and> snd t0 = snd t @ [Cursor_opened]"
  by (cases "cu (fst t)"; cases "fst (cu (fst t))") (auto simp add: traced_cursor_def)

lemma traced_exec_Inl:
  "traced_exec ex t = (Inl x, t0) \<Longrightarrow>
   ex (fst t) = (Inl x, fst t0) \<and> snd t0 = snd t @ [Attempt_raised x]"
  by (cases "ex (fst t)"; cases "fst (ex (fst t))") (auto simp add: traced_exec_def)

lemma traced_exec_Inr:
  "traced_exec ex t = (Inr rows, t0) \<Longrightarrow>
   ex (fst t) = (Inr rows, fst t0) \<and> snd t0 = snd t @ [Attempt_ok]"
  by (cases "ex (fst t)"; cases "fst (ex (fst t))") (auto simp add: traced_exec_def)

lemma traced_rollback_Inl:
  "traced_rollback rb t = (Inl x, t0) \<Longrightarrow>
   rb (fst t) = (Inl x, fst t0) \<and> snd t0 = snd t @ [Rollback_raised x]"
  by (cases "rb (fst t)"; cases "fst (rb (fst t))") (auto simp add: traced_rollback_def)

lemma traced_rollback_Inr:
  "traced_rollback rb t = (Inr u, t0) \<Longrightarrow>
   rb (fst t) = (Inr u, fst t0) \<and> snd t0 = snd t @ [Rolled_back]"
  by (cases "rb (fst t)"; cases "fst (rb (fst t))") (auto simp add: traced_rollback_def)

lemma retry_outcome_step:
  "retry_outcome m (a + 1) errs ending r lg \<Longrightarrow> a < m \<Longrightarrow>
   retry_outcome m a (e # errs) ending r (LogRetry a m e # lg)"
  unfolding retry_outcome_def
  by (cases r) (auto split: option.splits)

lemma retry_from_trace:
  fixes m a :: int
  shows "retry_from (traced_cursor cu) (traced_exec ex) (traced_rollback rb) m a t log =
           (r, t', log') \<Longrightarrow>
         \<exists>errs ending lg. snd t' = snd t @ failed_attempts errs @ ending \<and> log' = log @ lg \<and>
           retry_outcome m a errs ending r lg"
proof (induction "nat (m + 1 - a)" arbitrary: a t log rule: less_induct)
  case less
  note run = less.prems
  show ?case
  proof (cases rule: retry_paths[where a = a and m = m and cu = "traced_cursor cu" and c = t
        and ex = "traced_exec ex" and rb = "traced_rollback rb"])
    case empty_range
    from retry_from_done[where cu = "traced_cursor cu" and ex = "traced_exec ex"
        and rb = "traced_rollback rb" and c = t and log = log, OF empty_range] run
    have "r = Inr None" "t' = t" "log' = log" by simp_all
    then show ?thesis using empty_range
      by (intro exI[of _ "[]"]) (simp add: failed_attempts_Nil retry_outcome_def)
  next
    case (cursor_raised x t0)
    from retry_from_cursor_raised[where cu = "traced_cursor cu" and ex = "traced_exec ex"
        and rb = "traced_rollback rb" and c = t and log = log, OF cursor_raised] run
    have "r = Inl x" "t' = t0" "log' = log" by simp_all
    moreover have "snd t0 = snd t @ [Cursor_raised x]"
      using traced_cursor_Inl[OF cursor_raised(2)] by simp
    ultimately show ?thesis using cursor_raised(1)
      by (intro exI[of _ "[]"] exI[of _ "[Cursor_raised x]"])
         (simp add: failed_attempts_Nil retry_outcome_def)
  next
    case (ok u t0 rows t1)
    from retry_from_ok[where cu = "traced_cursor cu" and ex = "traced_exec ex"
        and rb = "traced_rollback rb" and c = t and log = log, OF ok] run
    have "r = Inr (Some rows)" "t' = t1" "log' = log" by simp_all
    moreover have "snd t1 = snd t @ [Cursor_opened, Attempt_ok]"
      using traced_cursor_Inr[OF ok(2)] traced_exec_Inr[OF ok(3)] by simp
    ultimately show ?thesis using ok(1)
      by (intro exI[of _ "[]"] exI[of _ "[Cursor_opened, Attempt_ok]"])
         (simp add: failed_attempts_Nil retry_outcome_def)
  next
    case (not_caught u t0 x t1)
    from retry_from_not_caught[where cu = "traced_cursor cu" and ex = "traced_exec ex"
        and rb = "traced_rollback rb" and c = t and log = log, OF not_caught] run
    have "r = Inl x" "t' = t1" "log' = log" by simp_all
    moreover have "snd t1 = snd t @ [Cursor_opened, Attempt_raised x]"
      using traced_cursor_Inr[OF not_caught(2)] traced_exec_Inl[OF not_caught(3)] by simp
    ultimately show ?thesis using not_caught(1,4)
      by (intro exI[of _ "[]"] exI[of _ "[Cursor_opened, Attempt_raised x]"])
         (simp add: failed_attempts_Nil retry_outcome_def)
  next
    case (rollback_raised u t0 e t1 x t2)
    from retry_from_rollback_raised[where cu = "traced_cursor cu" and ex = "traced_exec ex"
        and rb = "traced_rollback rb" and c = t and log = log, OF rollback_raised] run
    have "r = Inl x" "t' = t2" "log' = log" by simp_all
    moreover have "snd t2 = snd t @ [Cursor_opened, Attempt_raised (DbError e), Rollback_raised x]"
      using traced_cursor_Inr[OF rollback_raised(2)] traced_exec_Inl[OF rollback_raised(3)]
        traced_rollback_Inl[OF rollback_raised(4)] by simp
    ultimately show ?thesis using rollback_raised(1)
      by (intro exI[of _ "[]"]
            exI[of _ "[Cursor_opened, Attempt_raised (DbError e), Rollback_raised x]"])
         (simp add: failed_attempts_Nil retry_outcome_def)
  next
    case (last_failed u t0 e t1 u' t2)
    from retry_from_last[where cu = "traced_cursor cu" and ex = "traced_exec ex"
        and rb = "traced_rollback rb" and c = t and log = log and m = m,
        OF last_failed(2-4)] run last_failed(1)
    have "r = Inl (DbError e)" "t' = t2" "log' = log" by simp_all
    moreover have "snd t2 = snd t @ [Cursor_opened, Attempt_raised (DbError e), Rolled_back]"
      using traced_cursor_Inr[OF last_failed(2)] traced_exec_Inl[OF last_failed(3)]
        traced_rollback_Inr[OF last_failed(4)] by simp
    ultimately show ?thesis using last_failed(1)
      by (intro exI[of _ "[e]"] exI[of _ "[]"])
         (simp add: failed_attempts_Cons failed_attempts_Nil retry_outcome_def)
  next
    case (again u t0 e t1 u' t2)
    have ev: "snd t2 = snd t @ [Cursor_opened, Attempt_raised (DbError e), Rolled_back]"
      using traced_cursor_Inr[OF again(2)] traced_exec_Inl[OF again(3)]
        traced_rollback_Inr[OF again(4)] by simp
    have rec: "retry_from (traced_cursor cu) (traced_exec ex) (traced_rollback rb) m (a + 1) t2
                 (log @ [LogRetry a m e]) = (r, t', log')"
      using retry_from_again[where cu = "traced_cursor cu" and ex = "traced_exec ex"
        and rb = "traced_rollback rb" and c = t and log = log, OF again] run by simp
    have "nat (m + 1 - (a + 1)) < nat (m + 1 - a)"
      using again(1) by simp
    from less.hyps[OF this rec] obtain errs ending lg where
      t': "snd t' = snd t2 @ failed_attempts errs @ ending" and
      lg: "log' = (log @ [LogRetry a m e]) @ lg" and
      out: "retry_outcome m (a + 1) errs ending r lg"
      by blast
    show ?thesis
      using t' lg ev retry_outcome_step[OF out again(1), of e]
      by (intro exI[of _ "e # errs"] exI[of _ ending] exI[of _ "LogRetry a m e # lg"])
         (simp add: failed_attempts_Cons)
  qed
qed

text \<open>The recording operations do not change what the wrapper does.\<close>

lemma traced_run_same:
  fixes m a :: int
  shows "retry_from (traced_cursor cu) (traced_exec ex) (traced_rollback rb) m a t log =
           (r, t', log') \<Longrightarrow>
         retry_from cu ex rb m a (fst t) log = (r, fst t', log')"
proof (induction "nat (m + 1 - a)" arbitrary: a t log rule: less_induct)
  case less
  note run = less.prems
  show ?case
  proof (cases rule: retry_paths[where a = a and m = m and cu = "traced_cursor cu" and c = t
        and ex = "traced_exec ex" and rb = "traced_rollback rb"])
    case empty_range
    from retry_from_done[where cu = "traced_cursor cu" and ex = "traced_exec ex"
        and rb = "traced_rollback rb" and c = t and log = log, OF empty_range] run
    have "r = Inr None" "t' = t" "log' = log" by simp_all
    then show ?thesis using retry_from_done[OF empty_range, of cu ex rb "fst t" log] by simp
  next
    case (cursor_raised x t0)
    from retry_from_cursor_raised[where cu = "traced_cursor cu" and ex = "traced_exec ex"
        and rb = "traced_rollback rb" and c = t and log = log, OF cursor_raised] run
    have "r = Inl x" "t' = t0" "log' = log" by simp_all
    then show ?thesis
      using retry_from_cursor_raised[OF cursor_raised(1), of cu "fst t" x "fst t0" ex rb log]
        traced_cursor_Inl[OF cursor_raised(2)] by simp
  next
    case (ok u t0 rows t1)
    from retry_from_ok[where cu = "traced_cursor cu" and ex = "traced_exec ex"
        and rb = "traced_rollback rb" and c = t and log = log, OF ok] run
    have "r = Inr (Some rows)" "t' = t1" "log' = log" by simp_all
    then show ?thesis
      using retry_from_ok[OF ok(1), of cu "fst t" u "fst t0" ex rows "fst t1" rb log]
        traced_cursor_Inr[OF ok(2)] traced_exec_Inr[OF ok(3)] by simp
  next
    case (not_caught u t0 x t1)
    from retry_from_not_caught[where cu = "traced_cursor cu" and ex = "traced_exec ex"
        and rb = "traced_rollback rb" and c = t and log = log, OF not_caught] run
    have "r = Inl x" "t' = t1" "log' = log" by simp_all
    then show ?thesis
      using retry_from_not_caught[OF not_caught(1), of cu "fst t" u "fst t0" ex x "fst t1" rb log]
        traced_cursor_Inr[OF not_caught(2)] traced_exec_Inl[OF not_caught(3)] not_caught(4)
      by simp
  next
    case (rollback_raised u t0 e t1 x t2)
    from retry_from_rollback_raised[where cu = "traced_cursor cu" and ex = "traced_exec ex"
        and rb = "traced_rollback rb" and c = t and log = log, OF rollback_raised] run
    have "r = Inl x" "t' = t2" "log' = log" by simp_all
    then show ?thesis
      using retry_from_rollback_raised[OF rollback_raised(1),
          of cu "fst t" u "fst t0" ex e "fst t1" rb x "fst t2" log]
        traced_cursor_Inr[OF rollback_raised(2)] traced_exec_Inl[OF rollback_raised(3)]
        traced_rollback_Inl[OF rollback_raised(4)] by simp
  next
    case (last_failed u t0 e t1 u' t2)
    from retry_from_last[where cu = "traced_cursor cu" and ex = "traced_exec ex"
        and rb = "traced_rollback rb" and c = t and log = log and m = m,
        OF last_failed(2-4)] run last_failed(1)
    have "r = Inl (DbError e)" "t' = t2" "log' = log" by simp_all
    then show ?thesis
      using retry_from_last[of cu "fst t" u "fst t0" ex e "fst t1" rb u' "fst t2" m log]
        traced_cursor_Inr[OF last_failed(2)] traced_exec_Inl[OF last_failed(3)]
        traced_rollback_Inr[OF last_failed(4)] last_failed(1) by simp
  next
    case (again u t0 e t1 u' t2)
    have rec: "retry_from (traced_cursor cu) (traced_exec ex) (traced_rollback rb) m (a + 1) t2
                 (log @ [LogRetry a m e]) = (r, t', log')"
      using retry_from_again[where cu = "traced_cursor cu" and ex = "traced_exec ex"
        and rb = "traced_rollback rb" and c = t and log = log, OF again] run by simp
    have "nat (m + 1 - (a + 1)) < nat (m + 1 - a)"
      using again(1) by simp
    from less.hyps[OF this rec]
    have "retry_from cu ex rb m (a + 1) (fst t2) (log @ [LogRetry a m e]) = (r, fst t', log')" .
    then show ?thesis
      using retry_from_again[OF again(1), of cu "fst t" u "fst t0" ex e "fst t1" rb u' "fst t2" log]
        traced_cursor_Inr[OF again(2)] traced_exec_Inl[OF again(3)]
        traced_rollback_Inr[OF again(4)] by simp
  qed
qed

text \<open>The rows returned are rows the query fetched, on the connection as it is left.\<close>

lemma retry_from_rows:
  fixes m a :: int
  shows "retry_from cu ex rb m a c log = (Inr (Some rows), c', log') \<Longrightarrow>
         \<exists>c0. ex c0 = (Inr rows, c')"
proof (induction "nat (m + 1 - a)" arbitrary: a c log rule: less_induct)
  case less
  note run = less.prems
  show ?case
  proof (cases rule: retry_paths[where a = a and m = m and cu = cu and c = c
        and ex = ex and rb = rb])
    case empty_range
    from retry_from_done[where cu = cu and ex = ex and rb = rb and c = c and log = log,
        OF empty_range] run
    show ?thesis by simp
  next
    case (cursor_raised x c0)
    from retry_from_cursor_raised[where cu = cu and ex = ex and rb = rb and c = c and log = log,
        OF cursor_raised] run
    show ?thesis by simp
  next
    case (ok u c0 rows' c1)
    from retry_from_ok[where cu = cu and ex = ex and rb = rb and c = c and log = log, OF ok] run
    have "rows' = rows" "c1 = c'" by simp_all
    with ok(3) show ?thesis by blast
  next
    case (not_caught u c0 x c1)
    from retry_from_not_caught[where cu = cu and ex = ex and rb = rb and c = c and log = log,
        OF not_caught] run
    show ?thesis by simp
  next
    case (rollback_raised u c0 e c1 x c2)
    from retry_from_rollback_raised[where cu = cu and ex = ex and rb = rb and c = c
        and log = log, OF rollback_raised] run
    show ?thesis by simp
  next
    case (last_failed u c0 e c1 u' c2)
    from retry_from_last[where cu = cu and ex = ex and rb = rb and c = c and log = log
        and m = m, OF last_failed(2-4)] run last_failed(1)
    show ?thesis by simp
  next
    case (again u c0 e c1 u' c2)
    have rec: "retry_from cu ex rb m (a + 1) c2 (log @ [LogRetry a m e]) =
                 (Inr (Some rows), c', log')"
      using retry_from_again[where cu = cu and ex = ex and rb = rb and c = c and log = log,
          OF again] run by simp
    have "nat (m + 1 - (a + 1)) < nat (m + 1 - a)"
      using again(1) by simp
    from less.hyps[OF this rec] show ?thesis .
  qed
qed

lemma attempts_of_failed:
  "length (filter is_attempt (failed_attempts errs)) = length errs"
  by (induction errs) (simp_all add: failed_attempts_Nil failed_attempts_Cons)

lemma retry_outcome_attempts:
  "retry_outcome m 1 errs ending r lg \<Longrightarrow>
   int (length (filter is_attempt (failed_attempts errs @ ending))) \<le> max 0 m"
  unfolding retry_outcome_def
  by (cases r) (auto simp add: attempts_of_failed split: option.splits)

text \<open>
  Claim C9 (retry wrapper), as the code has it. Run \<open>execute_with_retry\<close> with the
  recording operations, from an empty record, with \<open>m\<close> the given \<open>max_retries\<close> or 3 when
  none is given. The plain run returns the same result, connection and log. The query is
  executed at most \<open>m\<close> times. The record begins with attempts that failed with a
  \<open>psycopg2.Error\<close>, each followed at once by a rollback, and each logged with its
  attempt number, counted from 1, and its cause, but for a failure on attempt \<open>m\<close>. Then:
  either an attempt succeeds, its rows are returned and nothing follows; or all \<open>m\<close>
  attempts have failed and the error of the last one is raised, unchanged; or, before
  \<open>m\<close> attempts have failed, an exception leaves the wrapper at once, with no retry and
  no message: one raised by \<open>conn.cursor\<close>, one raised by the query that is not a
  \<open>psycopg2.Error\<close> (without a rollback), or one raised by the rollback (in place of the
  error of the query). With \<open>m \<le> 0\<close> nothing is attempted and \<open>None\<close> is returned.
\<close>

theorem C9_retry_wrapper:
  fixes max_retries :: "int option"
  defines "m \<equiv> (case max_retries of None \<Rightarrow> 3 | Some k \<Rightarrow> k)"
  assumes "execute_with_retry (traced_cursor cu) (traced_exec ex) (traced_rollback rb)
             (conn, []) max_retries = (r, (c', evs), log)"
  shows "execute_with_retry cu ex rb conn max_retries = (r, c', log) \<and>
     int (length (filter is_attempt evs)) \<le> max 0 m \<and>
     (\<exists>errs ending. evs = failed_attempts errs @ ending \<and>
        (case r of
           Inr (Some rows) \<Rightarrow>
             ending = [Cursor_opened, Attempt_ok] \<and> int (length errs) < m \<and>
             log = retry_log 1 m errs \<and> (\<exists>c0. ex c0 = (Inr rows, c'))
         | Inr None \<Rightarrow> ending = [] \<and> errs = [] \<and> m \<le> 0 \<and> log = []
         | Inl x \<Rightarrow>
             (ending = [] \<and> errs \<noteq> [] \<and> int (length errs) = m \<and> x = DbError (last errs) \<and>
              log = retry_log 1 m (butlast errs)) \<or>
             (int (length errs) < m \<and> log = retry_log 1 m errs \<and>
              (ending = [Cursor_raised x] \<or>
               (ending = [Cursor_opened, Attempt_raised x] \<and> (\<forall>e. x \<noteq> DbError e)) \<or>
               (\<exists>e. ending = [Cursor_opened, Attempt_raised (DbError e), Rollback_raised x])))))"
proof -
  have m: "(case max_retries of None \<Rightarrow> default_max_retries | Some k \<Rightarrow> k) = m"
    by (cases max_retries) (simp_all add: m_def default_max_retries_def)
  have run: "retry_from (traced_cursor cu) (traced_exec ex) (traced_rollback rb) m 1 (conn, []) []
               = (r, (c', evs), log)"
    using assms(2) by (simp add: execute_with_retry_def m)
  from retry_from_trace[OF run] obtain errs ending where
    ev: "evs = failed_attempts errs @ ending" and out: "retry_outcome m 1 errs ending r log"
    by auto
  have same': "retry_from cu ex rb m 1 conn [] = (r, c', log)"
    using traced_run_same[OF run] by simp
  then have same: "execute_with_retry cu ex rb conn max_retries = (r, c', log)"
    by (simp add: execute_with_retry_def m)
  have cnt: "int (length (filter is_attempt evs)) \<le> max 0 m"
    using retry_outcome_attempts[OF out] ev by simp
  have rows: "\<And>rows. r = Inr (Some rows) \<Longrightarrow> \<exists>c0. ex c0 = (Inr rows, c')"
    using retry_from_rows[of cu ex rb m 1 conn "[]" _ c' log] same' by simp
  have tr: "case r of
           Inr (Some rows) \<Rightarrow>
             ending = [Cursor_opened, Attempt_ok] \<and> int (length errs) < m \<and>
             log = retry_log 1 m errs \<and> (\<exists>c0. ex c0 = (Inr rows, c'))
         | Inr None \<Rightarrow> ending = [] \<and> errs = [] \<and> m \<le> 0 \<and> log = []
         | Inl x \<Rightarrow>
             (ending = [] \<and> errs \<noteq> [] \<and> int (length errs) = m \<and> x = DbError (last errs) \<and>
              log = retry_log 1 m (butlast errs)) \<or>
             (int (length errs) < m \<and> log = retry_log 1 m errs \<and>
              (ending = [Cursor_raised x] \<or>
               (ending = [Cursor_opened, Attempt_raised x] \<and> (\<forall>e. x \<noteq> DbError e)) \<or>
               (\<exists>e. ending = [Cursor_opened, Attempt_raised (DbError e), Rollback_raised x])))"
  proof (cases r)
    case (Inl x)
    then show ?thesis using out by (auto simp add: retry_outcome_def)
  next
    case (Inr ro)
    show ?thesis
    proof (cases ro)
      case None
      then show ?thesis using out Inr by (auto simp add: retry_outcome_def)
    next
      case (Some rws)
      then show ?thesis using out Inr rows[of rws] by (auto simp add: retry_outcome_def)
    qed
  qed
  show ?thesis using same cnt ev tr by blast
qed

lemma flaky_succeeds:
  "execute_with_retry (traced_cursor succeeds) (traced_exec (flaky 2)) (traced_rollback succeeds)
     (0, []) None =
     (Inr (Some 2),
      (2, [Cursor_opened, Attempt_raised (DbError (DbFailure 0)), Rolled_back,
           Cursor_opened, Attempt_raised (DbError (DbFailure 1)), Rolled_back,
           Cursor_opened, Attempt_ok]),
      [LogRetry 1 3 (DbFailure 0), LogRetry 2 3 (DbFailure 1)])"
  by (simp add: execute_with_retry_def default_max_retries_def retry_from.simps traced_cursor_def
      traced_exec_def traced_rollback_def flaky_def succeeds_def)

lemma flaky_fails:
  "execute_with_retry (traced_cursor succeeds) (traced_exec (flaky 5)) (traced_rollback succeeds)
     (0, []) (Some 2) =
     (Inl (DbError (DbFailure 1)),
      (2, [Cursor_opened, Attempt_raised (DbError (DbFailure 0)), Rolled_back,
           Cursor_opened, Attempt_raised (DbError (DbFailure 1)), Rolled_back]),
      [LogRetry 1 2 (DbFailure 0)])"
  by (simp add: execute_with_retry_def retry_from.simps traced_cursor_def
      traced_exec_def traced_rollback_def flaky_def succeeds_def)

theorem C9_retry_wrapper_witness:
  "execute_with_retry succeeds (flaky 2) succeeds 0 None =
     (Inr (Some 2), 2, [LogRetry 1 3 (DbFailure 0), LogRetry 2 3 (DbFailure 1)]) \<and>
   execute_with_retry succeeds (flaky 5) succeeds 0 (Some 2) =
     (Inl (DbError (DbFailure 1)), 2, [LogRetry 1 2 (DbFailure 0)])"
  using C9_retry_wrapper[OF flaky_succeeds] C9_retry_wrapper[OF flaky_fails]
  by simp

text \<open>
  The claim as the specification words it, for every query and on each failure, fails for
  a failure that is not a \<open>psycopg2.Error\<close>: the query of \<open>get_or_create_pos_code\<close> with
  a name that holds a NUL character fails on the first of three attempts with the
  \<open>ValueError\<close> of psycopg2, and the wrapper leaves with no rollback, no message and no
  second attempt. It fails also where the rollback raises: on a dropped connection the
  first failure is followed by the error of the rollback, which is raised in place of
  the error of the query, with no message and no second attempt.
\<close>

theorem C9_retry_wrapper_counterexample:
  "execute_with_retry (traced_cursor pg_cursor) (traced_exec (pg_select_pos_code [0]))
     (traced_rollback pg_rollback) (demo_conn, []) None =
     (Inl (ValueError nul_msg),
      (demo_conn, [Cursor_opened, Attempt_raised (ValueError nul_msg)]), []) \<and>
   execute_with_retry (traced_cursor succeeds) (traced_exec dropped_query)
     (traced_rollback dropped_rollback) (0, []) None =
     (Inl (DbError (DbFailure 1)),
      (0, [Cursor_opened, Attempt_raised (DbError (DbFailure 0)),
           Rollback_raised (DbError (DbFailure 1))]), [])"
  by (simp add: execute_with_retry_def default_max_retries_def retry_from.simps traced_cursor_def
      traced_exec_def traced_rollback_def pg_cursor_def pg_select_pos_code_def pg_execute_def
      succeeds_def dropped_query_def dropped_rollback_def)

section \<open>The wrapper's RPC path\<close>









section \<open>The connection configuration\<close>

lemma merged_field:
  "blank_to_none (if truthy_str flag then flag else env_or env key None) =
   flag_or_env flag (env key)"
  by (cases flag; cases "env key")
     (simp_all add: blank_to_none_def truthy_str_def env_or_def flag_or_env_def)

lemma merged_host:
  "blank_to_none (if truthy_str flag then flag else env_or env key (Some (ascii ''localhost''))) =
   (case flag_or_env flag (env key) of None \<Rightarrow> Some (ascii ''localhost'') | Some h \<Rightarrow> Some h)"
  by (cases flag; cases "env key")
     (simp_all add: blank_to_none_def truthy_str_def env_or_def flag_or_env_def ascii_def)

lemma env_port:
  "port_env_ok py_int env \<Longrightarrow>
   (case env_or env ''PG_PORT'' None of
      None \<Rightarrow> Inr 5432
    | Some v \<Rightarrow> (case py_int v of None \<Rightarrow> Inl (ValueError (int_literal_msg v)) | Some n \<Rightarrow> Inr n)) =
   Inr (case flag_or_env None (env ''PG_PORT'') of
          None \<Rightarrow> 5432
        | Some v \<Rightarrow> (case py_int v of Some n \<Rightarrow> n | None \<Rightarrow> 5432))"
  by (cases "env ''PG_PORT''")
     (auto simp add: port_env_ok_def env_or_def flag_or_env_def split: option.splits)

lemma get_env_config_ok:
  assumes "port_env_ok py_int env"
  shows "get_env_config py_int env =
     Inr \<lparr>cfg_host = env_or env ''PG_HOST'' (Some (ascii ''localhost'')),
          cfg_port = (case flag_or_env None (env ''PG_PORT'') of
                        None \<Rightarrow> 5432
                      | Some v \<Rightarrow> (case py_int v of Some n \<Rightarrow> n | None \<Rightarrow> 5432)),
          cfg_database = env_or env ''PG_DATABASE'' None,
          cfg_user = env_or env ''PG_USER'' None,
          cfg_password = env_or env ''PG_PASSWORD'' None\<rparr>"
  unfolding get_env_config_def env_port[OF assms] by simp

lemma sublist_database_flag: "sublist (ascii ''--database'') no_database_msg"
  unfolding no_database_msg_def sublist_def
  by (rule exI[of _ "[12487, 12540, 12479, 12505, 12540, 12473, 21517, 12364, 25351, 23450,
        12373, 12428, 12390, 12356, 12414, 12379, 12435, 65288]"],
      rule exI[of _ "[32, 12414, 12383, 12399, 32] @ ascii ''PG_DATABASE'' @ [65289]"]) simp

lemma sublist_database_var: "sublist (ascii ''PG_DATABASE'') no_database_msg"
  unfolding no_database_msg_def sublist_def
  by (rule exI[of _ "[12487, 12540, 12479, 12505, 12540, 12473, 21517, 12364, 25351, 23450,
        12373, 12428, 12390, 12356, 12414, 12379, 12435, 65288] @ ascii ''--database'' @
        [32, 12414, 12383, 12399, 32]"],
      rule exI[of _ "[65289]"]) simp

lemma merge_cli_env_fields:
  assumes "port_env_ok py_int env"
  shows "merge_cli_env py_int env args =
     Inr \<lparr>cfg_host = blank_to_none (if truthy_str (arg_host args) then arg_host args
                                     else env_or env ''PG_HOST'' (Some (ascii ''localhost''))),
          cfg_port = (case arg_port args of
                        Some n \<Rightarrow> if n \<noteq> 0 then n
                                  else (case flag_or_env None (env ''PG_PORT'') of
                                          None \<Rightarrow> 5432
                                        | Some v \<Rightarrow> (case py_int v of Some n \<Rightarrow> n | None \<Rightarrow> 5432))
                      | None \<Rightarrow> (case flag_or_env None (env ''PG_PORT'') of
                                   None \<Rightarrow> 5432
                                 | Some v \<Rightarrow> (case py_int v of Some n \<Rightarrow> n | None \<Rightarrow> 5432))),
          cfg_database = blank_to_none (if truthy_str (arg_database args) then arg_database args
                                        else env_or env ''PG_DATABASE'' None),
          cfg_user = blank_to_none (if truthy_str (arg_user args) then arg_user args
                                    else env_or env ''PG_USER'' None),
          cfg_password = blank_to_none (if truthy_str (arg_password args) then arg_password args
                                        else env_or env ''PG_PASSWORD'' None)\<rparr>"
proof -
  show ?thesis
  proof (cases "arg_port args")
    case None
    then show ?thesis
      by (simp add: merge_cli_env_def get_env_config_ok[OF assms] Let_def)
  next
    case (Some n)
    show ?thesis
    proof (cases "n = 0")
      case True
      with Some show ?thesis
        by (simp add: merge_cli_env_def get_env_config_ok[OF assms] Let_def)
    next
      case False
      with Some show ?thesis
        by (simp add: merge_cli_env_def get_env_config_ok[OF assms] Let_def)
    qed
  qed
qed

lemma demo_port_ok: "port_env_ok decimal_int demo_env"
  by (simp add: port_env_ok_def demo_env_def decimal_int_def ascii_def)

lemma demo_merge:
  "merge_cli_env decimal_int demo_env demo_flags =
     Inr \<lparr>cfg_host = Some (ascii ''db.example''), cfg_port = 6543, cfg_database = None,
          cfg_user = Some (ascii ''admin''), cfg_password = None\<rparr>"
  by (simp add: merge_cli_env_def get_env_config_def env_or_def demo_env_def demo_flags_def
      truthy_str_def blank_to_none_def Let_def decimal_int_def ascii_def)

text \<open>
  Claim C8 (configuration merge), as amended. Provided \<open>PG_PORT\<close> is unset, empty or a
  string that \<open>int\<close> accepts, the merge succeeds and: database, user and password are the
  flag value when it is given and not empty, otherwise the environment value when it is
  not empty, otherwise \<open>None\<close>; host is chosen in the same way but is \<open>localhost\<close> when both
  are absent or empty; port is the flag when it is given and not zero, otherwise the
  integer value of \<open>PG_PORT\<close> when that is not empty, otherwise 5432; no string field is
  the empty string; and when the merged database name is absent,
  \<open>get_db_connection_from_args\<close> raises, whatever \<open>psycopg2.connect\<close> would do, a
  \<open>ValueError\<close> whose message contains both \<open>--database\<close> and \<open>PG_DATABASE\<close>.
\<close>

theorem C8_config_merge:
  assumes "port_env_ok py_int env"
  shows "\<exists>cfg. merge_cli_env py_int env args = Inr cfg \<and>
     cfg_database cfg = flag_or_env (arg_database args) (env ''PG_DATABASE'') \<and>
     cfg_user cfg = flag_or_env (arg_user args) (env ''PG_USER'') \<and>
     cfg_password cfg = flag_or_env (arg_password args) (env ''PG_PASSWORD'') \<and>
     cfg_host cfg = (case flag_or_env (arg_host args) (env ''PG_HOST'') of
                       None \<Rightarrow> Some (ascii ''localhost'') | Some h \<Rightarrow> Some h) \<and>
     cfg_port cfg =
       (case arg_port args of
          Some n \<Rightarrow> if n \<noteq> 0 then n
                    else (case flag_or_env None (env ''PG_PORT'') of
                            None \<Rightarrow> 5432
                          | Some v \<Rightarrow> (case py_int v of Some n \<Rightarrow> n | None \<Rightarrow> 5432))
        | None \<Rightarrow> (case flag_or_env None (env ''PG_PORT'') of
                     None \<Rightarrow> 5432
                   | Some v \<Rightarrow> (case py_int v of Some n \<Rightarrow> n | None \<Rightarrow> 5432))) \<and>
     Some [] \<notin> {cfg_host cfg, cfg_database cfg, cfg_user cfg, cfg_password cfg} \<and>
     (cfg_database cfg = None \<longrightarrow>
        (\<forall>connect :: conn_cfg \<Rightarrow> dberr + 'c.
           get_db_connection_from_args py_int connect env args = Inl (ValueError no_database_msg))) \<and>
     sublist (ascii ''--database'') no_database_msg \<and>
     sublist (ascii ''PG_DATABASE'') no_database_msg"
proof -
  obtain cfg where m: "merge_cli_env py_int env args = Inr cfg"
    using merge_cli_env_fields[OF assms, of args] by blast
  have d: "cfg_database cfg = flag_or_env (arg_database args) (env ''PG_DATABASE'')"
    and u: "cfg_user cfg = flag_or_env (arg_user args) (env ''PG_USER'')"
    and p: "cfg_password cfg = flag_or_env (arg_password args) (env ''PG_PASSWORD'')"
    and h: "cfg_host cfg = (case flag_or_env (arg_host args) (env ''PG_HOST'') of
                       None \<Rightarrow> Some (ascii ''localhost'') | Some h \<Rightarrow> Some h)"
    using m merge_cli_env_fields[OF assms, of args]
    by (auto simp only: merged_field merged_host sum.inject conn_cfg.simps)
  have port: "cfg_port cfg =
       (case arg_port args of
          Some n \<Rightarrow> if n \<noteq> 0 then n
                    else (case flag_or_env None (env ''PG_PORT'') of
                            None \<Rightarrow> 5432
                          | Some v \<Rightarrow> (case py_int v of Some n \<Rightarrow> n | None \<Rightarrow> 5432))
        | None \<Rightarrow> (case flag_or_env None (env ''PG_PORT'') of
                     None \<Rightarrow> 5432
                   | Some v \<Rightarrow> (case py_int v of Some n \<Rightarrow> n | None \<Rightarrow> 5432)))"
    using m merge_cli_env_fields[OF assms, of args]
    by (auto simp only: sum.inject conn_cfg.simps)
  have f: "\<And>a b. flag_or_env a b \<noteq> Some []"
    by (simp add: flag_or_env_def)
  have hne: "Some [] \<noteq> cfg_host cfg"
    using f[of "arg_host args" "env ''PG_HOST''"]
    by (cases "flag_or_env (arg_host args) (env ''PG_HOST'')") (auto simp add: h ascii_def)
  have ne: "Some [] \<notin> {cfg_host cfg, cfg_database cfg, cfg_user cfg, cfg_password cfg}"
    using hne f[THEN not_sym] by (simp add: d u p)
  have db: "cfg_database cfg = None \<longrightarrow>
        (\<forall>connect :: conn_cfg \<Rightarrow> dberr + 'c.
           get_db_connection_from_args py_int connect env args = Inl (ValueError no_database_msg))"
    by (simp add: get_db_connection_from_args_def m truthy_str_def)
  show ?thesis
    using m d u p h port ne db sublist_database_flag sublist_database_var
    by (intro exI[of _ cfg]) blast
qed

theorem C8_config_merge_witness:
  "port_env_ok decimal_int demo_env \<and>
   merge_cli_env decimal_int demo_env demo_flags =
     Inr \<lparr>cfg_host = Some (ascii ''db.example''), cfg_port = 6543, cfg_database = None,
          cfg_user = Some (ascii ''admin''), cfg_password = None\<rparr> \<and>
   get_db_connection_from_args decimal_int never_connect demo_env demo_flags =
     Inl (ValueError no_database_msg)"
  using C8_config_merge[where 'c = nat, OF demo_port_ok, of demo_flags] demo_port_ok
  by (auto simp add: demo_merge)

text \<open>
  Claim C8 as stated fails for the host: with \<open>PG_HOST\<close> set to the empty string and no
  flag, the merged host is \<open>localhost\<close>, where the claim has the empty string mapped to
  \<open>None\<close>.
\<close>

theorem C8_config_merge_counterexample:
  "merge_cli_env decimal_int env_blank_host no_flags =
     Inr \<lparr>cfg_host = Some (ascii ''localhost''), cfg_port = 5432, cfg_database = None,
          cfg_user = None, cfg_password = None\<rparr> \<and>
   flag_or_env (arg_host no_flags) (env_blank_host ''PG_HOST'') = None"
  by (simp add: merge_cli_env_def get_env_config_def env_or_def env_blank_host_def no_flags_def
      truthy_str_def blank_to_none_def flag_or_env_def Let_def ascii_def)

section \<open>The attribute resolver\<close>

lemma postgres_ops:
  "select_pos_code (postgres coll arr) = pg_select_pos_code"
  "select_attr_id (postgres coll arr) = pg_select_attr_id"
  "insert_attr (postgres coll arr) = pg_insert_attr"
  "upsert_word (postgres coll arr) = pg_upsert_word"
  "select_xmin_zero (postgres coll arr) = pg_select_xmin_zero"
  "init_statements (postgres coll arr) = pg_init_statements"
  "db_commit (postgres coll arr) = pg_commit"
  "db_rollback (postgres coll arr) = pg_rollback"
  by (simp_all add: postgres_def)










lemma no_nul_single: "0 \<notin> set name \<Longrightarrow> 0 \<notin> set (concat [name])"
  by simp













section \<open>Rows the importer skips\<close>

lemma five_fields:
  "length row = 5 \<Longrightarrow> \<exists>rd wd pn an co. row = [rd, wd, pn, an, co]"
  by (auto simp add: length_Suc_conv eval_nat_numeral)

lemma import_row_short:
  "length row < 5 \<Longrightarrow>
   import_row db n row st =
     (None, st\<lparr>imp_stderr := imp_stderr st @ [LogShortRow n row],
               imp_counts := (imp_counts st)\<lparr>skipped := skipped (imp_counts st) + 1\<rparr>\<rparr>)"
  by (simp add: import_row_def)


lemma import_row_pos_value_error:
  "select_pos_code db pn (imp_conn st) = (Inl (ValueError msg), c1) \<Longrightarrow>
   import_row db n [rd, wd, pn, an, co] st =
     (None, st\<lparr>imp_conn := c1,
               imp_stderr := imp_stderr st @ [LogRowValueError n msg],
               imp_counts := (imp_counts st)\<lparr>skipped := skipped (imp_counts st) + 1\<rparr>\<rparr>)"
  by (simp add: import_row_def import_row_body_def get_or_create_pos_code_def)

lemma import_row_too_long:
  "5 < length row \<Longrightarrow> import_row db n row st = (Some (ValueError too_many_values_msg), st)"
  by (auto simp add: import_row_def split: list.splits)


lemma pg_pos_nul:
  "0 \<in> set pn \<Longrightarrow> pg_select_pos_code pn c = (Inl (ValueError nul_msg), c)"
  by (simp add: pg_select_pos_code_def pg_execute_def)












section \<open>The classification of a row as inserted or updated\<close>

lemma varchar_fits: "length s \<le> n \<Longrightarrow> varchar n s = Some s"
  by (simp add: varchar_def)

text \<open>After the upsert, every row with the key of the upsert is a row version that the
  open transaction wrote.\<close>

lemma upsert_key_rows:
  assumes u: "pg_upsert_word rd wd pc ai co c = (Inr v, c')"
    and r: "length rd \<le> 255" and w: "length wd \<le> 255"
    and x: "x \<in> set (words (working c'))" and k: "same_key rd wd pc x"
  shows "w_xmin x = current_xid c"
proof (cases "list_ex (same_key rd wd pc) (words (working c))")
  case True
  with u r w have "words (working c') =
      map (\<lambda>x. if same_key rd wd pc x then updated_row c ai co x else x) (words (working c))"
    by (auto simp add: pg_upsert_word_def pg_execute_def varchar_fits split: if_splits)
  with x obtain y where y: "y \<in> set (words (working c))"
    and xy: "x = (if same_key rd wd pc y then updated_row c ai co y else y)"
    by auto
  show ?thesis
  proof (cases "same_key rd wd pc y")
    case True
    with xy show ?thesis by (simp add: updated_row_def)
  next
    case False
    with xy k show ?thesis by simp
  qed
next
  case False
  with u r w have "words (working c') = words (working c) @ [new_row c rd wd pc ai co]"
    by (auto simp add: pg_upsert_word_def pg_execute_def varchar_fits split: if_splits)
  with x k False show ?thesis
    by (auto simp add: list_ex_iff new_row_def)
qed

text \<open>So the query of line 90, which asks whether \<open>xmin\<close> is 0, answers no.\<close>

lemma xmin_zero_after_upsert:
  assumes u: "pg_upsert_word rd wd pc ai co c = (Inr v, c')"
    and r: "length rd \<le> 255" and w: "length wd \<le> 255"
    and s: "pg_select_xmin_zero rd wd pc c' = (Inr (Some b), c'')"
  shows "\<not> b"
proof -
  from s obtain x where f: "find (same_key rd wd pc) (words (working c')) = Some x"
    and b: "b = (w_xmin x = 0)"
    by (auto simp add: pg_select_xmin_zero_def pg_execute_def split: if_splits)
  from f have "x \<in> set (words (working c'))" and "same_key rd wd pc x"
    by (auto simp add: find_Some_iff)
  from upsert_key_rows[OF u r w this] b show ?thesis
    by (simp add: current_xid_def)
qed

lemma import_row_body_flag:
  assumes "import_row_body db rd wd pn an co c = (Inr b, c')"
  shows "\<exists>pc c1 ai c2 v c3. upsert_word db rd wd pc ai co c2 = (Inr v, c3) \<and>
           select_xmin_zero db rd wd pc c3 = (Inr (Some b), c')"
proof -
  obtain r1 c1 where p: "get_or_create_pos_code db pn c = (r1, c1)"
    by (cases "get_or_create_pos_code db pn c")
  with assms obtain pc where r1: "r1 = Inr pc"
    by (cases r1) (simp_all add: import_row_body_def)
  obtain r2 c2 where a: "get_or_create_attr_id db an c1 = (r2, c2)"
    by (cases "get_or_create_attr_id db an c1")
  with assms p r1 obtain ai where r2: "r2 = Inr ai"
    by (cases r2) (simp_all add: import_row_body_def)
  obtain r3 c3 where u: "upsert_word db rd wd pc ai co c2 = (r3, c3)"
    by (cases "upsert_word db rd wd pc ai co c2")
  with assms p r1 a r2 obtain v where r3: "r3 = Inr v"
    by (cases r3) (simp_all add: import_row_body_def)
  obtain r4 c4 where s: "select_xmin_zero db rd wd pc c3 = (r4, c4)"
    by (cases "select_xmin_zero db rd wd pc c3")
  with assms p r1 a r2 u r3 have "r4 = Inr (Some b) \<and> c4 = c'"
    by (cases r4; cases "projr r4") (auto simp add: import_row_body_def split: option.splits)
  with u r3 s show ?thesis by blast
qed

lemma pg_body_flag:
  assumes "import_row_body (postgres coll arr) rd wd pn an co c = (Inr b, c')"
    and "length rd \<le> 255" and "length wd \<le> 255"
  shows "\<not> b"
proof -
  from import_row_body_flag[OF assms(1)] obtain pc ai c2 v c3 where
    u: "pg_upsert_word rd wd pc ai co c2 = (Inr v, c3)" and
    s: "pg_select_xmin_zero rd wd pc c3 = (Inr (Some b), c')"
    by (auto simp add: postgres_ops)
  from xmin_zero_after_upsert[OF u assms(2,3) s] show ?thesis .
qed

lemma import_row_inserted:
  assumes f: "fits_columns row"
    and r: "import_row (postgres coll arr) n row st = (x, st')"
  shows "inserted (imp_counts st') = inserted (imp_counts st)"
proof (cases "length row < 5")
  case True
  with r show ?thesis by (auto simp add: import_row_short)
next
  case False
  show ?thesis
  proof (cases "length row = 5")
    case False
    with \<open>\<not> length row < 5\<close> have "5 < length row" by simp
    from import_row_too_long[OF this, of "postgres coll arr" n st] r show ?thesis by simp
  next
    case True
    from five_fields[OF True] obtain rd wd pn an co where row: "row = [rd, wd, pn, an, co]"
      by blast
    from f row have l: "length rd \<le> 255" "length wd \<le> 255"
      by (simp_all add: fits_columns_def)
    obtain res c' where body: "import_row_body (postgres coll arr) rd wd pn an co (imp_conn st) =
        (res, c')"
      by (cases "import_row_body (postgres coll arr) rd wd pn an co (imp_conn st)")
    show ?thesis
    proof (cases res)
      case (Inr b)
      with body l have "\<not> b" by (auto dest: pg_body_flag)
      with r row body Inr show ?thesis by (auto simp add: import_row_def)
    next
      case (Inl e)
      with r row body show ?thesis
        by (cases e; cases "db_rollback (postgres coll arr) c'";
            cases "fst (db_rollback (postgres coll arr) c')")
           (auto simp add: import_row_def)
    qed
  qed
qed

lemma import_loop_inserted:
  "list_all fits_columns rows \<Longrightarrow> import_loop (postgres coll arr) n rows st = (x, st') \<Longrightarrow>
   inserted (imp_counts st') = inserted (imp_counts st)"
proof (induction rows arbitrary: n st)
  case Nil
  then show ?case by simp
next
  case (Cons row rows)
  obtain y st1 where r: "import_row (postgres coll arr) n row st = (y, st1)"
    by (cases "import_row (postgres coll arr) n row st")
  have i: "inserted (imp_counts st1) = inserted (imp_counts st)"
    using import_row_inserted[OF _ r] Cons.prems(1) by simp
  show ?case
  proof (cases y)
    case (Some e)
    with r Cons.prems(2) i show ?thesis by simp
  next
    case None
    with r Cons.prems(2) have "import_loop (postgres coll arr) (Suc n) rows st1 = (x, st')"
      by simp
    from Cons.IH[OF _ this] Cons.prems(1) i show ?thesis by simp
  qed
qed

lemma import_csv_inserted:
  assumes "list_all fits_columns rows"
  shows "inserted (imp_counts (snd (import_csv (postgres coll arr) c rows))) = 0"
proof -
  let ?st = "\<lparr>imp_conn = c, imp_counts = zero_counts, imp_stderr = []\<rparr>"
  obtain x st' where l: "import_loop (postgres coll arr) 1 rows ?st = (x, st')"
    by (cases "import_loop (postgres coll arr) 1 rows ?st")
  from import_loop_inserted[OF assms l] have "inserted (imp_counts st') = 0"
    by (simp add: zero_counts_def)
  with l show ?thesis
    by (cases x) (simp_all add: import_csv_def postgres_ops pg_commit_def)
qed

lemma fresh_initialize:
  "initialize_database (postgres coll arr) fresh_conn = (Inr [LogInitDone], initialized_conn)"
  by (simp add: initialize_database_def postgres_ops pg_init_statements_def seed_pos_def
      create_schema_def pg_commit_def fresh_conn_def empty_tables_def initialized_conn_def
      initialized_tables_def koyuu_meishi_def futsuu_meishi_def)

lemma tanaka_import:
  "import_csv (postgres coll arr) initialized_conn [tanaka_row] =
     (None, \<lparr>imp_conn = tanaka_conn,
             imp_counts = \<lparr>inserted = 0, updated = 1, skipped = 0, errors = 0\<rparr>,
             imp_stderr =
               [LogImportDone \<lparr>inserted = 0, updated = 1, skipped = 0, errors = 0\<rparr>]\<rparr>)"
  by (simp add: import_csv_def import_row_def import_row_body_def tanaka_row_def
      get_or_create_pos_code_def get_or_create_attr_id_def postgres_ops pg_select_pos_code_def
      pg_select_attr_id_def pg_insert_attr_def pg_upsert_word_def pg_select_xmin_zero_def
      pg_commit_def pg_execute_def varchar_def references_ok_def same_key_def new_row_def
      current_xid_def current_timestamp_def zero_counts_def initialized_conn_def
      initialized_tables_def tanaka_conn_def tanaka_tables_def koyuu_meishi_def
      futsuu_meishi_def)

lemma tanaka_body:
  "import_row_body (postgres coll arr) [12383, 12394, 12363] [30000, 20013] koyuu_meishi
       [22320, 21517] [8722] initialized_conn =
     (Inr False, tanaka_conn\<lparr>committed := tanaka_tables\<lparr>words := []\<rparr>, txn := 2\<rparr>)"
  by (simp add: import_row_body_def
      get_or_create_pos_code_def get_or_create_attr_id_def postgres_ops pg_select_pos_code_def
      pg_select_attr_id_def pg_insert_attr_def pg_upsert_word_def pg_select_xmin_zero_def
      pg_commit_def pg_execute_def varchar_def references_ok_def same_key_def new_row_def
      current_xid_def current_timestamp_def initialized_conn_def
      initialized_tables_def tanaka_conn_def tanaka_tables_def koyuu_meishi_def
      futsuu_meishi_def)

text \<open>
  Claim C2 (insert/update classification), what the code does. The specification has a
  row that was absent before the write counted as inserted. The importer decides by the
  query of line 90, \<open>SELECT xmin = 0\<close>, on the row it has just written; the \<open>xmin\<close> of a
  row is the id of the transaction that wrote it, which is never 0. So on PostgreSQL no
  row is ever counted as inserted: the counter \<open>inserted\<close> is 0 at the end of every
  import of rows whose reading and word fit their columns, and the flag that the body of
  the loop reads is false whenever it is read, whether the row was absent or present
  before the write.
\<close>

theorem C2_insert_never_counted:
  "(list_all fits_columns rows \<longrightarrow>
      inserted (imp_counts (snd (import_csv (postgres coll arr) c rows))) = 0) \<and>
   (length rd \<le> 255 \<and> length wd \<le> 255 \<and>
    import_row_body (postgres coll arr) rd wd pn an co c = (Inr b, c') \<longrightarrow> \<not> b)"
  using import_csv_inserted[of rows coll arr c] pg_body_flag[of coll arr rd wd pn an co c b c']
  by blast

text \<open>The example of the specification: the row is absent before the import, present after
  it, and reported as updated.\<close>

theorem C2_insert_never_counted_witness:
  "initialize_database (postgres codepoint_order as_joined) fresh_conn =
     (Inr [LogInitDone], initialized_conn) \<and>
   words (working initialized_conn) = [] \<and>
   list_all fits_columns [tanaka_row] \<and>
   import_csv (postgres codepoint_order as_joined) initialized_conn [tanaka_row] =
     (None, \<lparr>imp_conn = tanaka_conn,
             imp_counts = \<lparr>inserted = 0, updated = 1, skipped = 0, errors = 0\<rparr>,
             imp_stderr =
               [LogImportDone \<lparr>inserted = 0, updated = 1, skipped = 0, errors = 0\<rparr>]\<rparr>) \<and>
   inserted (imp_counts (snd (import_csv (postgres codepoint_order as_joined) initialized_conn
     [tanaka_row]))) = 0 \<and>
   map w_word (words (working tanaka_conn)) = [[30000, 20013]] \<and>
   fst (import_row_body (postgres codepoint_order as_joined) [12383, 12394, 12363]
          [30000, 20013] koyuu_meishi [22320, 21517] [8722] initialized_conn) = Inr False"
  using C2_insert_never_counted[where rows = "[tanaka_row]" and coll = codepoint_order
          and arr = as_joined and c = initialized_conn and rd = "[12383, 12394, 12363]"
          and wd = "[30000, 20013]" and pn = koyuu_meishi and an = "[22320, 21517]"
          and co = "[8722]" and b = False
          and c' = "tanaka_conn\<lparr>committed := tanaka_tables\<lparr>words := []\<rparr>, txn := 2\<rparr>"]
        tanaka_import[of codepoint_order as_joined]
        fresh_initialize[of codepoint_order as_joined]
        tanaka_body[of codepoint_order as_joined]
  by (simp add: fits_columns_def tanaka_row_def initialized_conn_def initialized_tables_def
      tanaka_conn_def tanaka_tables_def)

section \<open>A row that fails in the database\<close>

lemma import_row_db_error:
  "import_row_body db rd wd pn an co (imp_conn st) = (Inl (DbError e), c3) \<Longrightarrow>
   db_rollback db c3 = (Inr u, c4) \<Longrightarrow>
   import_row db n [rd, wd, pn, an, co] st =
     (None, st\<lparr>imp_conn := c4,
               imp_stderr := imp_stderr st @ [LogRowDbError n e],
               imp_counts := (imp_counts st)\<lparr>errors := errors (imp_counts st) + 1\<rparr>\<rparr>)"
  by (simp add: import_row_def)

lemma import_row_body_upsert_failed:
  "get_or_create_pos_code db pn c = (Inr pc, c1) \<Longrightarrow>
   get_or_create_attr_id db an c1 = (Inr ai, c2) \<Longrightarrow>
   upsert_word db rd wd pc ai co c2 = (Inl x, c3) \<Longrightarrow>
   import_row_body db rd wd pn an co c = (Inl x, c3)"
  by (simp add: import_row_body_def)

lemma long_reading_import:
  "import_csv (postgres coll arr) initialized_conn [tanaka_row, long_reading_row] =
     (None, \<lparr>imp_conn = lost_row_conn,
             imp_counts = \<lparr>inserted = 0, updated = 1, skipped = 0, errors = 1\<rparr>,
             imp_stderr =
               [LogRowDbError 2 ValueTooLong,
                LogImportDone \<lparr>inserted = 0, updated = 1, skipped = 0, errors = 1\<rparr>]\<rparr>)"
  by (simp add: import_csv_def import_row_def import_row_body_def tanaka_row_def
      long_reading_row_def
      get_or_create_pos_code_def get_or_create_attr_id_def postgres_ops pg_select_pos_code_def
      pg_select_attr_id_def pg_insert_attr_def pg_upsert_word_def pg_select_xmin_zero_def
      pg_commit_def pg_rollback_def pg_execute_def varchar_def references_ok_def same_key_def
      new_row_def current_xid_def current_timestamp_def zero_counts_def initialized_conn_def
      initialized_tables_def lost_row_conn_def attr_only_tables_def koyuu_meishi_def
      futsuu_meishi_def)

text \<open>On PostgreSQL, a row whose part of speech and attribute exist and whose reading or
  word does not fit its column: the upsert fails and the handler rolls back.\<close>

lemma pg_row_too_long:
  assumes s: "has_schema (working (imp_conn st))"
    and n: "0 \<notin> set (concat [rd, wd, pn, an, co])"
    and p: "find (\<lambda>p. p_name p = pn) (pos_codes (working (imp_conn st))) = Some p"
    and a: "find (\<lambda>a. a_name a = an) (attr_codes (working (imp_conn st))) = Some a"
    and v: "varchar 255 rd = None \<or> varchar 255 wd = None"
  shows "import_row (postgres coll arr) n [rd, wd, pn, an, co] st =
     (None, st\<lparr>imp_conn := (imp_conn st)\<lparr>working := committed (imp_conn st),
                                           txn := Suc (txn (imp_conn st))\<rparr>,
               imp_stderr := imp_stderr st @ [LogRowDbError n ValueTooLong],
               imp_counts := (imp_counts st)\<lparr>errors := errors (imp_counts st) + 1\<rparr>\<rparr>)"
proof -
  let ?c = "imp_conn st"
  have pos: "get_or_create_pos_code (postgres coll arr) pn ?c = (Inr (p_code p), ?c)"
    using s n p by (simp add: get_or_create_pos_code_def postgres_ops pg_select_pos_code_def
        pg_execute_def)
  have attr: "get_or_create_attr_id (postgres coll arr) an ?c = (Inr (a_id a), ?c)"
    using s n a by (simp add: get_or_create_attr_id_def postgres_ops pg_select_attr_id_def
        pg_execute_def)
  have ups: "upsert_word (postgres coll arr) rd wd (p_code p) (a_id a) co ?c =
               (Inl (DbError ValueTooLong), ?c)"
    using s n v by (auto simp add: postgres_ops pg_upsert_word_def pg_execute_def
        split: option.splits)
  have body: "import_row_body (postgres coll arr) rd wd pn an co ?c =
                (Inl (DbError ValueTooLong), ?c)"
    by (rule import_row_body_upsert_failed[OF pos attr ups])
  have rb: "db_rollback (postgres coll arr) ?c =
              (Inr (), ?c\<lparr>working := committed ?c, txn := Suc (txn ?c)\<rparr>)"
    by (simp add: postgres_ops pg_rollback_def)
  show ?thesis
    by (rule import_row_db_error[OF body rb])
qed

text \<open>
  Claim C3 (per-row error atomicity), what the code does. A row whose processing raises
  a \<open>psycopg2.Error\<close> is logged with its number and the error, the connection is rolled
  back, the row is counted as an error, no exception leaves the iteration and the loop
  goes on with the next row: so far the code does what the specification asks. But the
  rollback is \<open>conn.rollback()\<close>, which ends the open transaction: on PostgreSQL the
  tables are then the committed ones, and the importer commits only when it creates an
  attribute and at the end of the file. So the words written by the rows before the
  failing row, since the last commit, are discarded with it, while they are still
  counted as updated: their effects do not remain.
\<close>

theorem C3_row_error_rollback:
  "(import_row_body db rd wd pn an co (imp_conn st) = (Inl (DbError e), c3) \<and>
    db_rollback db c3 = (Inr u, c4) \<longrightarrow>
      import_row db n [rd, wd, pn, an, co] st =
        (None, st\<lparr>imp_conn := c4,
                  imp_stderr := imp_stderr st @ [LogRowDbError n e],
                  imp_counts := (imp_counts st)\<lparr>errors := errors (imp_counts st) + 1\<rparr>\<rparr>) \<and>
      import_loop db n ([rd, wd, pn, an, co] # rows) st =
        import_loop db (Suc n) rows
          (st\<lparr>imp_conn := c4,
              imp_stderr := imp_stderr st @ [LogRowDbError n e],
              imp_counts := (imp_counts st)\<lparr>errors := errors (imp_counts st) + 1\<rparr>\<rparr>)) \<and>
   (has_schema (working (imp_conn st)) \<and> 0 \<notin> set (concat [rd, wd, pn, an, co]) \<and>
    find (\<lambda>p. p_name p = pn) (pos_codes (working (imp_conn st))) = Some p \<and>
    find (\<lambda>a. a_name a = an) (attr_codes (working (imp_conn st))) = Some a \<and>
    (varchar 255 rd = None \<or> varchar 255 wd = None) \<longrightarrow>
      import_row (postgres coll arr) n [rd, wd, pn, an, co] st =
        (None, st\<lparr>imp_conn := (imp_conn st)\<lparr>working := committed (imp_conn st),
                                              txn := Suc (txn (imp_conn st))\<rparr>,
                  imp_stderr := imp_stderr st @ [LogRowDbError n ValueTooLong],
                  imp_counts := (imp_counts st)\<lparr>errors := errors (imp_counts st) + 1\<rparr>\<rparr>))"
proof -
  have a: "import_row_body db rd wd pn an co (imp_conn st) = (Inl (DbError e), c3) \<and>
    db_rollback db c3 = (Inr u, c4) \<longrightarrow>
      import_row db n [rd, wd, pn, an, co] st =
        (None, st\<lparr>imp_conn := c4,
                  imp_stderr := imp_stderr st @ [LogRowDbError n e],
                  imp_counts := (imp_counts st)\<lparr>errors := errors (imp_counts st) + 1\<rparr>\<rparr>)"
    using import_row_db_error[of db rd wd pn an co st e c3 u c4 n] by simp
  have b: "has_schema (working (imp_conn st)) \<and> 0 \<notin> set (concat [rd, wd, pn, an, co]) \<and>
    find (\<lambda>p. p_name p = pn) (pos_codes (working (imp_conn st))) = Some p \<and>
    find (\<lambda>a. a_name a = an) (attr_codes (working (imp_conn st))) = Some a \<and>
    (varchar 255 rd = None \<or> varchar 255 wd = None) \<longrightarrow>
      import_row (postgres coll arr) n [rd, wd, pn, an, co] st =
        (None, st\<lparr>imp_conn := (imp_conn st)\<lparr>working := committed (imp_conn st),
                                              txn := Suc (txn (imp_conn st))\<rparr>,
                  imp_stderr := imp_stderr st @ [LogRowDbError n ValueTooLong],
                  imp_counts := (imp_counts st)\<lparr>errors := errors (imp_counts st) + 1\<rparr>\<rparr>)"
    using pg_row_too_long[of st rd wd pn an co p a coll arr n] by blast
  show ?thesis
    using a b by simp
qed

lemma tanaka_written_facts:
  "has_schema (working tanaka_written)"
  "find (\<lambda>p. p_name p = koyuu_meishi) (pos_codes (working tanaka_written)) =
     Some \<lparr>p_code = 1, p_name = koyuu_meishi\<rparr>"
  "find (\<lambda>a. a_name a = [22320, 21517]) (attr_codes (working tanaka_written)) =
     Some \<lparr>a_id = 1, a_name = [22320, 21517]\<rparr>"
  "0 \<notin> set (concat [replicate 256 120, [65], koyuu_meishi, [22320, 21517], [8722]])"
  "varchar 255 (replicate 256 120) = None"
  "map w_word (words (working tanaka_written)) = [[30000, 20013]]"
  "tanaka_written\<lparr>working := committed tanaka_written, txn := Suc (txn tanaka_written)\<rparr> =
     lost_row_conn\<lparr>txn := 3\<rparr>"
  "words (working (lost_row_conn\<lparr>txn := 3\<rparr>)) = []"
  by (simp_all add: tanaka_written_def tanaka_tables_def attr_only_tables_def lost_row_conn_def
      varchar_def koyuu_meishi_def)

lemma long_reading_body:
  "import_row_body (postgres coll arr) (replicate 256 120) [65] koyuu_meishi [22320, 21517]
       [8722] tanaka_written = (Inl (DbError ValueTooLong), tanaka_written)"
  "db_rollback (postgres coll arr) tanaka_written = (Inr (), lost_row_conn\<lparr>txn := 3\<rparr>)"
proof -
  have pos: "get_or_create_pos_code (postgres coll arr) koyuu_meishi tanaka_written =
               (Inr 1, tanaka_written)"
    using tanaka_written_facts(1,2)
    by (simp add: get_or_create_pos_code_def postgres_ops pg_select_pos_code_def pg_execute_def
        koyuu_meishi_def)
  have attr: "get_or_create_attr_id (postgres coll arr) [22320, 21517] tanaka_written =
                (Inr 1, tanaka_written)"
    using tanaka_written_facts(1,3)
    by (simp add: get_or_create_attr_id_def postgres_ops pg_select_attr_id_def pg_execute_def)
  have ups: "upsert_word (postgres coll arr) (replicate 256 120) [65] 1 1 [8722] tanaka_written =
               (Inl (DbError ValueTooLong), tanaka_written)"
    using tanaka_written_facts(1,5)
    by (simp add: postgres_ops pg_upsert_word_def pg_execute_def)
  show "import_row_body (postgres coll arr) (replicate 256 120) [65] koyuu_meishi [22320, 21517]
       [8722] tanaka_written = (Inl (DbError ValueTooLong), tanaka_written)"
    by (rule import_row_body_upsert_failed[OF pos attr ups])
  show "db_rollback (postgres coll arr) tanaka_written = (Inr (), lost_row_conn\<lparr>txn := 3\<rparr>)"
    using tanaka_written_facts(7) by (simp add: postgres_ops pg_rollback_def)
qed

text \<open>The example row followed by the refused row: the word of the example row is
  written, then discarded by the rollback for the refused row; the import ends with no
  word in the table and reports one row updated and one in error.\<close>

theorem C3_row_error_rollback_witness:
  "map w_word (words (working tanaka_written)) = [[30000, 20013]] \<and>
   import_row (postgres codepoint_order as_joined) 2 long_reading_row
       \<lparr>imp_conn = tanaka_written,
        imp_counts = \<lparr>inserted = 0, updated = 1, skipped = 0, errors = 0\<rparr>, imp_stderr = []\<rparr> =
     (None, \<lparr>imp_conn = lost_row_conn\<lparr>txn := 3\<rparr>,
             imp_counts = \<lparr>inserted = 0, updated = 1, skipped = 0, errors = 1\<rparr>,
             imp_stderr = [LogRowDbError 2 ValueTooLong]\<rparr>) \<and>
   words (working (lost_row_conn\<lparr>txn := 3\<rparr>)) = [] \<and>
   import_csv (postgres codepoint_order as_joined) initialized_conn
       [tanaka_row, long_reading_row] =
     (None, \<lparr>imp_conn = lost_row_conn,
             imp_counts = \<lparr>inserted = 0, updated = 1, skipped = 0, errors = 1\<rparr>,
             imp_stderr =
               [LogRowDbError 2 ValueTooLong,
                LogImportDone \<lparr>inserted = 0, updated = 1, skipped = 0, errors = 1\<rparr>]\<rparr>) \<and>
   words (committed lost_row_conn) = []"
  using C3_row_error_rollback[where db = "postgres codepoint_order as_joined"
          and rd = "replicate 256 120" and wd = "[65]" and pn = koyuu_meishi
          and an = "[22320, 21517]" and co = "[8722]"
          and st = "\<lparr>imp_conn = tanaka_written,
                     imp_counts = \<lparr>inserted = 0, updated = 1, skipped = 0, errors = 0\<rparr>,
                     imp_stderr = []\<rparr>"
          and e = ValueTooLong and ?c3.0 = tanaka_written and u = "()"
          and ?c4.0 = "lost_row_conn\<lparr>txn := 3\<rparr>" and n = 2 and rows = "[]"
          and p = "\<lparr>p_code = 1, p_name = koyuu_meishi\<rparr>"
          and a = "\<lparr>a_id = 1, a_name = [22320, 21517]\<rparr>"
          and coll = codepoint_order and arr = as_joined]
        tanaka_written_facts
        long_reading_body[of codepoint_order as_joined]
        long_reading_import[of codepoint_order as_joined]
  by (simp add: long_reading_row_def) (simp add: lost_row_conn_def attr_only_tables_def)

end
